theory Spec2Isabelle
  imports Main
begin

section \<open>Python values\<close>

text \<open>
  The service in \<^verbatim>\<open>app.py\<close> handles values produced by \<^verbatim>\<open>json.loads\<close>:
  \<^verbatim>\<open>None\<close>, booleans, integers, floats, strings, lists and dicts.
  Strings are byte lists. A float is identified by its Python \<^verbatim>\<open>repr\<close>
  (the shortest decimal that reads back as the same float, or \<^verbatim>\<open>nan\<close>,
  \<^verbatim>\<open>inf\<close>, \<^verbatim>\<open>-inf\<close>), so no float arithmetic is needed.
  \<open>PyDict kvs\<close> is the dict obtained by inserting the pairs \<open>kvs\<close> in order,
  a later pair overwriting the value of an earlier one with the same key.
\<close>

datatype pyval =
    PyNone
  | PyBool bool
  | PyInt int
  | PyFloat string
  | PyStr string
  | PyList "pyval list"
  | PyDict "(string \<times> pyval) list"

definition nan :: pyval where
  "nan = PyFloat ''nan''"

text \<open>Exceptions: the class and the message, which is the text \<^verbatim>\<open>str(e)\<close> of the
  exceptions that reach the handler of \<^verbatim>\<open>predict\<close>. All classes below derive from
  Python's \<^verbatim>\<open>Exception\<close>.\<close>

datatype exn_class =
    FileNotFoundError
  | BadRequest
  | AttributeError
  | KeyError
  | ValueError
  | IndexError
  | TemplateSyntaxError
  | OtherException

datatype exn = Exn exn_class string

fun exn_class_of :: "exn \<Rightarrow> exn_class" where
  "exn_class_of (Exn c m) = c"

fun str_exn :: "exn \<Rightarrow> string" where
  "str_exn (Exn c m) = m"

subsection \<open>\<^verbatim>\<open>str\<close> and \<^verbatim>\<open>repr\<close>\<close>

fun str_nat :: "nat \<Rightarrow> string" where
  "str_nat n =
     (if n < 10 then [''0123456789'' ! n]
      else str_nat (n div 10) @ [''0123456789'' ! (n mod 10)])"

declare str_nat.simps [simp del]

definition str_int :: "int \<Rightarrow> string" where
  "str_int i = (if i < 0 then CHR ''-'' # str_nat (nat (- i)) else str_nat (nat i))"

definition hex2 :: "nat \<Rightarrow> string" where
  "hex2 n = [''0123456789abcdef'' ! ((n div 16) mod 16), ''0123456789abcdef'' ! (n mod 16)]"

text \<open>\<^verbatim>\<open>repr\<close> of a string, as CPython writes it for ASCII text: single quotes
  unless the text has a single quote and no double quote; backslash and the quote
  escaped; tab, newline and carriage return as \<^verbatim>\<open>\t \n \r\<close>; other control
  characters as \<^verbatim>\<open>\xhh\<close>. Bytes from 0x80 on are copied.\<close>

definition repr_char :: "char \<Rightarrow> char \<Rightarrow> string" where
  "repr_char quote c =
     (if c = quote \<or> c = CHR 0x5C then [CHR 0x5C, c]
      else if c = CHR 0x09 then [CHR 0x5C, CHR ''t'']
      else if c = CHR 0x0A then [CHR 0x5C, CHR ''n'']
      else if c = CHR 0x0D then [CHR 0x5C, CHR ''r'']
      else if (of_char c :: nat) < 32 \<or> c = CHR 0x7F then [CHR 0x5C, CHR ''x''] @ hex2 (of_char c)
      else [c])"

definition repr_str :: "string \<Rightarrow> string" where
  "repr_str s =
     (let quote = (if CHR 0x27 \<in> set s \<and> CHR 0x22 \<notin> set s then CHR 0x22 else CHR 0x27)
      in [quote] @ concat (map (repr_char quote) s) @ [quote])"

fun str_join :: "string \<Rightarrow> string list \<Rightarrow> string" where
  "str_join sep [] = []"
| "str_join sep [x] = x"
| "str_join sep (x # y # ys) = x @ sep @ str_join sep (y # ys)"

text \<open>Inserting into a dict keeps the position of a key that is already there.\<close>

fun dict_setitem :: "('k \<times> 'v) list \<Rightarrow> 'k \<Rightarrow> 'v \<Rightarrow> ('k \<times> 'v) list" where
  "dict_setitem [] k v = [(k, v)]"
| "dict_setitem (p # ps) k v = (if fst p = k then (k, v) # ps else p # dict_setitem ps k v)"

definition dict_items :: "('k \<times> 'v) list \<Rightarrow> ('k \<times> 'v) list" where
  "dict_items kvs = foldl (\<lambda>d p. dict_setitem d (fst p) (snd p)) [] kvs"

text \<open>\<^verbatim>\<open>d.get(k)\<close> on the dict built from \<open>kvs\<close>: the value of the last pair
  with key \<open>k\<close>.\<close>

definition dict_get :: "('k \<times> 'v) list \<Rightarrow> 'k \<Rightarrow> 'v option" where
  "dict_get kvs k = map_of (rev kvs) k"

text \<open>With one argument, \<^verbatim>\<open>get\<close> answers \<^verbatim>\<open>None\<close> for a key that is not there.\<close>

definition py_get :: "(string \<times> pyval) list \<Rightarrow> string \<Rightarrow> pyval" where
  "py_get kvs k = (case dict_get kvs k of None \<Rightarrow> PyNone | Some v \<Rightarrow> v)"

fun py_repr :: "pyval \<Rightarrow> string" where
  "py_repr PyNone = ''None''"
| "py_repr (PyBool b) = (if b then ''True'' else ''False'')"
| "py_repr (PyInt i) = str_int i"
| "py_repr (PyFloat r) = r"
| "py_repr (PyStr s) = repr_str s"
| "py_repr (PyList xs) = ''['' @ str_join '', '' (map py_repr xs) @ '']''"
| "py_repr (PyDict kvs) =
     ''{'' @ str_join '', ''
        (map (\<lambda>p. fst p @ '': '' @ snd p)
           (dict_items (map (\<lambda>(k, v). (repr_str k, py_repr v)) kvs))) @ ''}''"

fun py_str :: "pyval \<Rightarrow> string" where
  "py_str (PyStr s) = s"
| "py_str v = py_repr v"

fun type_name :: "pyval \<Rightarrow> string" where
  "type_name PyNone = ''NoneType''"
| "type_name (PyBool b) = ''bool''"
| "type_name (PyInt i) = ''int''"
| "type_name (PyFloat r) = ''float''"
| "type_name (PyStr s) = ''str''"
| "type_name (PyList xs) = ''list''"
| "type_name (PyDict kvs) = ''dict''"

text \<open>\<^verbatim>\<open>str.lower\<close>, exact on ASCII. No character outside ASCII lowers to
  \<^verbatim>\<open>y\<close>, \<^verbatim>\<open>e\<close> or \<^verbatim>\<open>s\<close>, so the comparison with \<^verbatim>\<open>'yes'\<close> below is
  Python's.\<close>

definition lower_char :: "char \<Rightarrow> char" where
  "lower_char c =
     (case map_of (zip ''ABCDEFGHIJKLMNOPQRSTUVWXYZ'' ''abcdefghijklmnopqrstuvwxyz'') c of
        Some l \<Rightarrow> l
      | None \<Rightarrow> c)"

definition str_lower :: "string \<Rightarrow> string" where
  "str_lower s = map lower_char s"

section \<open>The HTTP layer's data\<close>

text \<open>
  A Flask request, as far as the handlers read it: \<^verbatim>\<open>request.url_root\<close> and the
  outcome of \<^verbatim>\<open>request.get_json(force=True)\<close>, which raises \<^verbatim>\<open>BadRequest\<close>
  on a body that is not JSON and returns the parsed value otherwise.
\<close>

record request =
  url_root :: string
  get_json :: "exn + pyval"

datatype body = JsonBody pyval | HtmlBody string

datatype response = Response nat body

fun status_code :: "response \<Rightarrow> nat" where
  "status_code (Response c b) = c"

text \<open>\<^verbatim>\<open>jsonify\<close> of a dict with string values.\<close>

definition jsonify :: "(string \<times> string) list \<Rightarrow> body" where
  "jsonify d = JsonBody (PyDict (map (\<lambda>(k, v). (k, PyStr v)) d))"

section \<open>A one-row DataFrame\<close>

text \<open>
  \<^verbatim>\<open>pd.DataFrame([d])\<close> has one row: it is the list of its columns, each with its
  single cell, in column order.
\<close>

type_synonym dataframe = "(string \<times> pyval) list"

definition columns :: "dataframe \<Rightarrow> string list" where
  "columns df = map fst df"

text \<open>\<^verbatim>\<open>df[col] = v\<close>: an existing column is overwritten in place, a new one is
  appended.\<close>

definition df_setitem :: "dataframe \<Rightarrow> string \<Rightarrow> pyval \<Rightarrow> dataframe" where
  "df_setitem df col v = dict_setitem df col v"

text \<open>\<^verbatim>\<open>df[cols]\<close>: the named columns in the order asked for; \<^verbatim>\<open>KeyError\<close> on a
  column that is not there.\<close>

fun df_select :: "dataframe \<Rightarrow> string list \<Rightarrow> exn + dataframe" where
  "df_select df [] = Inr []"
| "df_select df (c # cs) =
     (case map_of df c of
        None \<Rightarrow> Inl (Exn KeyError (CHR 0x22 # ''['' @ repr_str c @ ''] not in index'' @ [CHR 0x22]))
      | Some v \<Rightarrow>
          (case df_select df cs of
             Inl e \<Rightarrow> Inl e
           | Inr r \<Rightarrow> Inr ((c, v) # r)))"

text \<open>\<^verbatim>\<open>Series.astype(str)\<close> on the cell.\<close>

definition astype_str :: "pyval \<Rightarrow> string" where
  "astype_str v = py_str v"

text \<open>
  \<^verbatim>\<open>pd.to_numeric(series, errors='coerce')\<close> on the cell. Numbers and booleans stay;
  \<^verbatim>\<open>None\<close>, an empty string, a string that pandas' number parser rejects, a list
  and a dict become NaN. The parser of pandas is the parameter \<open>parse\<close>: it gives the
  number a string denotes, if any. (An integer outside 64 bits becomes a float; the model
  keeps its value.)
\<close>

fun to_numeric :: "(string \<Rightarrow> pyval option) \<Rightarrow> pyval \<Rightarrow> pyval" where
  "to_numeric parse PyNone = nan"
| "to_numeric parse (PyBool b) = PyBool b"
| "to_numeric parse (PyInt i) = PyInt i"
| "to_numeric parse (PyFloat r) = PyFloat r"
| "to_numeric parse (PyStr s) =
     (if s = [] then nan else case parse s of None \<Rightarrow> nan | Some n \<Rightarrow> n)"
| "to_numeric parse (PyList xs) = nan"
| "to_numeric parse (PyDict kvs) = nan"

section \<open>The classifier and the label encoder\<close>

text \<open>
  The two artifacts are opaque to the service. The classifier's \<^verbatim>\<open>predict\<close> takes
  the DataFrame and returns the array of encoded classes, or raises. The label encoder is
  scikit-learn's \<^verbatim>\<open>LabelEncoder\<close>: it holds the class names, and
  \<^verbatim>\<open>inverse_transform\<close> turns an array of indices into names, raising
  \<^verbatim>\<open>ValueError\<close> on an index it does not know.
\<close>

type_synonym classifier = "dataframe \<Rightarrow> exn + int list"

record label_encoder =
  classes :: "string list"

text \<open>numpy's \<^verbatim>\<open>str\<close> of an integer array: the elements right-aligned to one
  width (short arrays, which fit a line).\<close>

definition np_str :: "int list \<Rightarrow> string" where
  "np_str xs =
     (let strs = map str_int xs;
          w = foldr max (map length strs) 0
      in ''['' @ str_join '' '' (map (\<lambda>s. replicate (w - length s) CHR '' '' @ s) strs) @ '']'')"

definition inverse_transform :: "label_encoder \<Rightarrow> int list \<Rightarrow> exn + string list" where
  "inverse_transform le y =
     (if y = [] then Inr []
      else
        let diff = filter (\<lambda>i. \<not> (0 \<le> i \<and> i < int (length (classes le)))) (sort (remdups y))
        in if diff \<noteq> []
           then Inl (Exn ValueError (''y contains previously unseen labels: '' @ np_str diff))
           else Inr (map (\<lambda>i. classes le ! nat i) y))"

record model_state =
  loaded_model :: "classifier option"
  loaded_le_personality :: "label_encoder option"

section \<open>Effects\<close>

text \<open>What a run does beyond returning: lines printed, the body parse, and the calls
  into the two artifacts, in order.\<close>

datatype event =
    Stdout string
  | ParseBody
  | ModelPredict dataframe
  | InverseTransform "int list"

section \<open>The page of \<^verbatim>\<open>GET /\<close>\<close>

text \<open>
  The f-string \<^verbatim>\<open>welcome_message\<close> of \<^verbatim>\<open>home\<close>: the text before the endpoint
  URL and the text after it, with the doubled braces of the f-string already single.
\<close>

definition welcome_head :: string where
  \<open>welcome_head =
     ''\<newline>'' @
     ''    <div style="font-family: Arial, sans-serif; text-align: center; margin-top: 50px; padding: 20px; background-color: #f9f9f9; border-radius: 10px; box-shadow: 0 4px 8px rgba(0,0,0,0.1);">\<newline>'' @
     ''        <h1 style="color: #333; border-bottom: 2px solid #4CAF50; padding-bottom: 10px; margin-bottom: 20px;">\<newline>'' @
     ''            Welcome to the Personality Prediction API!\<newline>'' @
     ''        </h1>\<newline>'' @
     ''        <p style="font-size: 1.1em; color: #555; line-height: 1.6;">\<newline>'' @
     ''            This API predicts whether a person is an Introvert or Extrovert based on provided characteristics.\<newline>'' @
     ''        </p>\<newline>'' @
     ''        <p style="font-size: 1.1em; color: #555; line-height: 1.6;">\<newline>'' @
     ''            To get a prediction, you need to send a <strong>POST request</strong> to the <strong><code>/predict</code></strong> endpoint.\<newline>'' @
     ''        </p>\<newline>'' @
     ''        <h2 style="color: #666; margin-top: 30px; border-bottom: 1px solid #ddd; padding-bottom: 5px;">How to use it:</h2>\<newline>'' @
     ''        <div style="background-color: #fff; border: 1px solid #e0e0e0; padding: 20px; border-radius: 8px; display: inline-block; text-align: left; max-width: 600px; margin: 20px auto;">\<newline>'' @
     ''            <p><strong>Endpoint:</strong> <code>''\<close>

definition welcome_tail :: string where
  \<open>welcome_tail =
     ''</code></p>\<newline>'' @
     ''            <p><strong>Method:</strong> <code>POST</code></p>\<newline>'' @
     ''            <p><strong>Content-Type:</strong> <code>application/json</code></p>\<newline>'' @
     ''            <p><strong>Body (JSON example):</strong></p>\<newline>'' @
     ''            <pre style="background-color: #eee; padding: 15px; border-radius: 5px; overflow-x: auto; font-family: monospace; font-size: 0.9em; white-space: pre-wrap; word-wrap: break-word;"><code>{\<newline>'' @
     ''    "Time_spent_Alone": 7.0,\<newline>'' @
     ''    "Stage_fear": "No",\<newline>'' @
     ''    "Social_event_attendance": 2.0,\<newline>'' @
     ''    "Going_outside": 1.0,\<newline>'' @
     ''    "Drained_after_socializing": "Yes",\<newline>'' @
     ''    "Friends_circle_size": 2.0,\<newline>'' @
     ''    "Post_frequency": 1.0\<newline>'' @
     ''}</code></pre>\<newline>'' @
     ''            <p style="margin-top: 15px; font-size: 0.9em; color: #777;">\<newline>'' @
     ''                (Use the URL you see in your browser's address bar for the base host!)\<newline>'' @
     ''            </p>\<newline>'' @
     ''        </div>\<newline>'' @
     ''        <p style="font-size: 0.9em; color: #777; margin-top: 20px;">\<newline>'' @
     ''            You can use tools like <code>curl</code> (in terminal), Postman, or Python's <code>requests</code> library to send the POST request.\<newline>'' @
     ''        </p>\<newline>'' @
     ''    </div>\<newline>'' @
     ''    ''\<close>

definition welcome_message :: "string \<Rightarrow> string" where
  "welcome_message predict_endpoint = welcome_head @ predict_endpoint @ welcome_tail"

section \<open>Rendering the page\<close>

text \<open>
  \<^verbatim>\<open>render_template_string\<close> hands its argument to Jinja2 as template source. Jinja2
  turns every line end into a line feed and drops one line end at the very end of the
  source; text outside tags is output as it is; a comment \<^verbatim>\<open>{# ... #}\<close> is
  dropped, where a minus sign inside a delimiter also strips the white space next to it,
  and a comment that is not closed is a \<^verbatim>\<open>TemplateSyntaxError\<close>. What Jinja2 makes
  of a source with an expression tag \<^verbatim>\<open>{{\<close> or a statement tag \<^verbatim>\<open>{%\<close> is the
  parameter \<open>jinja\<close>.
\<close>

definition is_space :: "char \<Rightarrow> bool" where
  "is_space c =
     (let n = (of_char c :: nat) in (9 \<le> n \<and> n \<le> 13) \<or> (28 \<le> n \<and> n \<le> 32))"

fun contains :: "string \<Rightarrow> string \<Rightarrow> bool" where
  "contains [] p = (p = [])"
| "contains (c # cs) p = (take (length p) (c # cs) = p \<or> contains cs p)"

fun normalize_newlines :: "string \<Rightarrow> string" where
  "normalize_newlines [] = []"
| "normalize_newlines (c # cs) =
     (if c = CHR 0x0D then CHR 0x0A # normalize_newlines (if take 1 cs = [CHR 0x0A] then drop 1 cs else cs)
      else c # normalize_newlines cs)"

definition strip_trailing_newline :: "string \<Rightarrow> string" where
  "strip_trailing_newline s = (if s \<noteq> [] \<and> last s = CHR 0x0A then butlast s else s)"

text \<open>Inside a comment: the source after the comment's end, if it has one.\<close>

fun comment_end :: "string \<Rightarrow> string option" where
  "comment_end [] = None"
| "comment_end (c # cs) =
     (if take 3 (c # cs) = ''+#}'' then Some (drop 2 cs)
      else if take 3 (c # cs) = ''-#}'' then Some (dropWhile is_space (drop 2 cs))
      else if take 2 (c # cs) = ''#}'' then Some (drop 1 cs)
      else comment_end cs)"

text \<open>Outside tags, with \<open>seg\<close> the text since the last tag, newest character first.\<close>

function lex_data :: "string \<Rightarrow> string \<Rightarrow> exn + string" where
  "lex_data seg [] = Inr (rev seg)"
| "lex_data seg (c # cs) =
     (if take 2 (c # cs) = ''{#'' then
        (let sign = take 1 (drop 1 cs);
             text = rev (if sign = ''-'' then dropWhile is_space seg else seg);
             inside = (if sign = ''-'' \<or> sign = ''+'' then drop 2 cs else drop 1 cs)
         in case comment_end inside of
              None \<Rightarrow> Inl (Exn TemplateSyntaxError ''Missing end of comment tag'')
            | Some rest \<Rightarrow>
                (case lex_data [] rest of
                   Inl e \<Rightarrow> Inl e
                 | Inr out \<Rightarrow> Inr (text @ out)))
      else lex_data (c # seg) cs)"
  by pat_completeness auto
termination
proof -
  have shorter: "length r < length s" if "comment_end s = Some r" for s r
    using that
  proof (induction s)
    case Nil
    then show ?case by simp
  next
    case (Cons c cs)
    have "length (dropWhile is_space (drop 2 cs)) \<le> length (drop 2 cs)"
      by (rule length_dropWhile_le)
    with Cons show ?case
      by (auto split: if_splits)
  qed
  show ?thesis
  proof (relation "measure (\<lambda>(seg, s). length s)")
    show "wf (measure (\<lambda>(seg, s). length s))"
      by simp
  next
    fix seg :: string and c cs x xa xb x2
    assume "xb = (if x = ''-'' \<or> x = ''+'' then drop 2 cs else drop 1 cs)"
      and "comment_end xb = Some x2"
    then have "length x2 < length xb" and "length xb \<le> length cs"
      by (auto dest: shorter)
    then show "(([], x2), seg, c # cs) \<in> measure (\<lambda>(seg, s). length s)"
      by simp
  next
    fix seg :: string and c cs
    show "((c # seg, cs), seg, c # cs) \<in> measure (\<lambda>(seg, s). length s)"
      by simp
  qed
qed

definition render_template_string :: "(string \<Rightarrow> exn + string) \<Rightarrow> string \<Rightarrow> exn + string" where
  "render_template_string jinja source =
     (if contains source ''{{'' \<or> contains source ''{%'' then jinja source
      else lex_data [] (strip_trailing_newline (normalize_newlines source)))"

section \<open>The handlers\<close>

text \<open>\<^verbatim>\<open>home\<close>, the view of \<^verbatim>\<open>GET /\<close>. It prints nothing and calls neither
  artifact; it returns the page or leaves with the exception of the renderer.\<close>

definition home :: "(string \<Rightarrow> exn + string) \<Rightarrow> request \<Rightarrow> exn + response" where
  "home jinja req =
     (let api_host = url_root req;
          predict_endpoint = api_host @ ''predict''
      in case render_template_string jinja (welcome_message predict_endpoint) of
           Inl e \<Rightarrow> Inl e
         | Inr page \<Rightarrow> Inr (Response 200 (HtmlBody page)))"

text \<open>Flask answers an exception that leaves a view with its Internal Server Error
  page.\<close>

definition internal_server_error :: response where
  "internal_server_error = Response 500 (HtmlBody
     (''<!doctype html>\<newline>'' @
      ''<html lang=en>\<newline>'' @
      ''<title>500 Internal Server Error</title>\<newline>'' @
      ''<h1>Internal Server Error</h1>\<newline>'' @
      ''<p>The server encountered an internal error and was unable to complete your request. '' @
      ''Either the server is overloaded or there is an error in the application.</p>\<newline>''))"

definition flask_view :: "exn + response \<Rightarrow> response" where
  "flask_view r = (case r of Inl e \<Rightarrow> internal_server_error | Inr resp \<Rightarrow> resp)"

text \<open>Lines 94 to 102: the order of the columns the classifier was trained on.\<close>

definition expected_feature_order :: "string list" where
  "expected_feature_order =
     [''Time_spent_Alone'',
      ''Stage_fear'',
      ''Social_event_attendance'',
      ''Going_outside'',
      ''Drained_after_socializing'',
      ''Friends_circle_size'',
      ''Post_frequency'']"

definition squote :: string where
  "squote = [CHR 0x27]"

text \<open>\<^verbatim>\<open>request_data.get(feature)\<close>: only a dict has the method.\<close>

definition request_data_get :: "pyval \<Rightarrow> string \<Rightarrow> exn + pyval" where
  "request_data_get request_data feature =
     (case request_data of
        PyDict kvs \<Rightarrow> Inr (py_get kvs feature)
      | _ \<Rightarrow>
          Inl (Exn AttributeError
            (squote @ type_name request_data @ squote @ '' object has no attribute '' @
             squote @ ''get'' @ squote)))"

text \<open>Line 104, the dict comprehension over the expected features: \<open>d\<close> is the dict
  built so far.\<close>

fun input_features_dict ::
  "pyval \<Rightarrow> string list \<Rightarrow> (string \<times> pyval) list \<Rightarrow> exn + (string \<times> pyval) list" where
  "input_features_dict request_data [] d = Inr d"
| "input_features_dict request_data (feature # features) d =
     (case request_data_get request_data feature of
        Inl e \<Rightarrow> Inl e
      | Inr v \<Rightarrow> input_features_dict request_data features (dict_setitem d feature v))"

text \<open>Line 109, the lambda applied to the cell's string.\<close>

definition yes_to_int :: "string \<Rightarrow> pyval" where
  "yes_to_int x = (if str_lower x = ''yes'' then PyInt 1 else PyInt 0)"

text \<open>Lines 108 to 111, the body of the loop over the two categorical columns.\<close>

definition categorical_step :: "dataframe \<Rightarrow> string \<Rightarrow> dataframe" where
  "categorical_step input_df col =
     (case map_of input_df col of
        Some cell \<Rightarrow>
          (if cell \<noteq> PyNone then df_setitem input_df col (yes_to_int (astype_str cell))
           else df_setitem input_df col (PyInt 0))
      | None \<Rightarrow> df_setitem input_df col (PyInt 0))"

text \<open>Lines 114 to 117, the body of the loop over the five numeric columns.\<close>

definition numeric_step :: "(string \<Rightarrow> pyval option) \<Rightarrow> dataframe \<Rightarrow> string \<Rightarrow> dataframe" where
  "numeric_step parse input_df col =
     (case map_of input_df col of
        Some cell \<Rightarrow> df_setitem input_df col (to_numeric parse cell)
      | None \<Rightarrow> df_setitem input_df col PyNone)"

text \<open>Lines 105 to 119: the DataFrame of the one record, the two loops, and the
  selection of the columns in the expected order.\<close>

definition build_input_df :: "(string \<Rightarrow> pyval option) \<Rightarrow> (string \<times> pyval) list \<Rightarrow> exn + dataframe" where
  "build_input_df parse d =
     (let input_df = d;
          input_df = foldl categorical_step input_df [''Stage_fear'', ''Drained_after_socializing''];
          input_df = foldl (numeric_step parse) input_df
            [''Time_spent_Alone'', ''Social_event_attendance'', ''Going_outside'',
             ''Friends_circle_size'', ''Post_frequency'']
      in df_select input_df expected_feature_order)"

text \<open>Lines 91 to 124, the body of the \<^verbatim>\<open>try\<close>: what it did, and the response it
  returned or the exception it raised.\<close>

definition predict_try ::
  "(string \<Rightarrow> pyval option) \<Rightarrow> classifier \<Rightarrow> label_encoder \<Rightarrow> request \<Rightarrow> event list \<times> (exn + response)" where
  "predict_try parse model le req =
     (case get_json req of
        Inl e \<Rightarrow> ([ParseBody], Inl e)
      | Inr request_data \<Rightarrow>
          (let received =
             [ParseBody,
              Stdout (''Received prediction request with raw data: '' @ py_str request_data)]
           in case input_features_dict request_data expected_feature_order [] of
                Inl e \<Rightarrow> (received, Inl e)
              | Inr d \<Rightarrow>
                  (case build_input_df parse d of
                     Inl e \<Rightarrow> (received, Inl e)
                   | Inr input_df \<Rightarrow>
                       (case model input_df of
                          Inl e \<Rightarrow> (received @ [ModelPredict input_df], Inl e)
                        | Inr prediction_encoded \<Rightarrow>
                            (let called = received @
                               [ModelPredict input_df, InverseTransform prediction_encoded]
                             in case inverse_transform le prediction_encoded of
                                  Inl e \<Rightarrow> (called, Inl e)
                                | Inr [] \<Rightarrow>
                                    (called, Inl (Exn IndexError
                                       ''index 0 is out of bounds for axis 0 with size 0''))
                                | Inr (prediction_label # labels) \<Rightarrow>
                                    (called,
                                     Inr (Response 200
                                       (jsonify [(''prediction'', prediction_label)]))))))))"

text \<open>\<^verbatim>\<open>predict\<close>, the view of \<^verbatim>\<open>POST /predict\<close>: the response and what the call
  did.\<close>

definition predict ::
  "(string \<Rightarrow> pyval option) \<Rightarrow> model_state \<Rightarrow> request \<Rightarrow> response \<times> event list" where
  "predict parse st req =
     (case (loaded_model st, loaded_le_personality st) of
        (Some model, Some le) \<Rightarrow>
          (case predict_try parse model le req of
             (evs, Inr resp) \<Rightarrow> (resp, evs)
           | (evs, Inl e) \<Rightarrow>
               (Response 500
                  (jsonify
                     [(''error'',
                       ''An internal server error occurred during prediction: '' @ str_exn e)]),
                evs @ [Stdout (''Error during prediction: '' @ str_exn e)]))
      | _ \<Rightarrow>
          (Response 500
             (jsonify
                [(''error'', ''Prediction service unavailable: Model not loaded on server.'')]),
           []))"

text \<open>
  The application: the views registered for \<^verbatim>\<open>GET /\<close> and \<^verbatim>\<open>POST /predict\<close>,
  served with the globals \<open>st\<close> that loading left.
\<close>

datatype route = Root | Predict

definition app ::
  "(string \<Rightarrow> exn + string) \<Rightarrow> (string \<Rightarrow> pyval option) \<Rightarrow> model_state \<Rightarrow> route \<Rightarrow> request \<Rightarrow>
   response \<times> event list" where
  "app jinja parse st r req =
     (case r of
        Root \<Rightarrow> (flask_view (home jinja req), [])
      | Predict \<Rightarrow> predict parse st req)"

section \<open>Loading the artifacts\<close>

definition os_path_join :: "string \<Rightarrow> string \<Rightarrow> string" where
  "os_path_join a b = a @ ''/'' @ b"

definition MODEL_PATH :: string where
  "MODEL_PATH = os_path_join ''models'' ''personality_model.joblib''"

definition LABEL_ENCODER_PATH :: string where
  "LABEL_ENCODER_PATH = os_path_join ''models'' ''personality_label_encoder.joblib''"

text \<open>
  Lines 17 to 31, run once when the module is loaded. The parameters are the outcomes of
  the two calls of \<^verbatim>\<open>joblib.load\<close>: the object, or the exception raised. The second
  call is made only when the first returned. The result is the two globals and the lines
  printed.
\<close>

definition load_try ::
  "exn + classifier \<Rightarrow> exn + label_encoder \<Rightarrow> model_state \<times> event list \<times> exn option" where
  "load_try model_file encoder_file =
     (case model_file of
        Inl e \<Rightarrow> (\<lparr>loaded_model = None, loaded_le_personality = None\<rparr>, [], Some e)
      | Inr m \<Rightarrow>
          (case encoder_file of
             Inl e \<Rightarrow> (\<lparr>loaded_model = Some m, loaded_le_personality = None\<rparr>, [], Some e)
           | Inr le \<Rightarrow>
               (\<lparr>loaded_model = Some m, loaded_le_personality = Some le\<rparr>,
                [Stdout (''Model loaded successfully from '' @ MODEL_PATH),
                 Stdout (''Label Encoder loaded successfully from '' @ LABEL_ENCODER_PATH)],
                None)))"

text \<open>The lines printed by the two \<^verbatim>\<open>except\<close> clauses (lines 26 to 28, and 31).\<close>

definition file_not_found_output :: "event list" where
  "file_not_found_output =
     [Stdout (''Error: Model files not found at '' @ squote @ MODEL_PATH @ squote @
              '' or '' @ squote @ LABEL_ENCODER_PATH @ squote @ ''.''),
      Stdout (''Please ensure the '' @ squote @ ''models/'' @ squote @
              '' directory exists in the project root and contains the '' @
              squote @ ''.joblib'' @ squote @ '' files.''),
      Stdout (''You need to train the model first by running the '' @
              ''`introvert_extrovert_predictor.ipynb` notebook to generate these files.'')]"

definition unexpected_error_output :: "exn \<Rightarrow> event list" where
  "unexpected_error_output e =
     [Stdout (''An unexpected error occurred while loading model files: '' @ str_exn e)]"

definition load_artifacts :: "exn + classifier \<Rightarrow> exn + label_encoder \<Rightarrow> model_state \<times> event list" where
  "load_artifacts model_file encoder_file =
     (case load_try model_file encoder_file of
        (st, out, None) \<Rightarrow> (st, out)
      | (st, out, Some e) \<Rightarrow>
          (if exn_class_of e = FileNotFoundError then (st, out @ file_not_found_output)
           else (st, out @ unexpected_error_output e)))"

text \<open>The prediction endpoint serves only when both globals are set (line 87).\<close>

definition model_unavailable :: "model_state \<Rightarrow> bool" where
  "model_unavailable st = (Option.is_none (loaded_model st) \<or> Option.is_none (loaded_le_personality st))"

section \<open>Notions used to state the properties\<close>

text \<open>The DataFrames the classifier was called with, in order.\<close>

fun model_inputs :: "event list \<Rightarrow> dataframe list" where
  "model_inputs [] = []"
| "model_inputs (ModelPredict df # es) = df # model_inputs es"
| "model_inputs (e # es) = model_inputs es"

text \<open>The cell of a categorical column after the first loop, from the cell before it.\<close>

definition categorical_value :: "pyval \<Rightarrow> pyval" where
  "categorical_value v = (if v \<noteq> PyNone then yes_to_int (astype_str v) else PyInt 0)"

text \<open>Comparing two strings without regard to the case of ASCII letters, as the
  specification words the test of the categorical fields.\<close>

definition caseless_eq :: "string \<Rightarrow> string \<Rightarrow> bool" where
  "caseless_eq a b = list_all2 (\<lambda>x y. lower_char x = lower_char y) a b"

text \<open>The characters that come right after an occurrence of \<open>a\<close> in a string.\<close>

fun following :: "char \<Rightarrow> string \<Rightarrow> string" where
  "following a [] = []"
| "following a [c] = []"
| "following a (c # d # cs) = (if c = a then d # following a (d # cs) else following a (d # cs))"

text \<open>The characters of a URI (RFC 3986): letters, digits, and the reserved and
  unreserved marks.\<close>

definition uri_char :: "char \<Rightarrow> bool" where
  "uri_char c =
     (c \<in> set ''ABCDEFGHIJKLMNOPQRSTUVWXYZabcdefghijklmnopqrstuvwxyz0123456789'' \<or>
      c \<in> set ''-._~:/?#[]@!$&()*+,;=%'' \<or> c = CHR 0x27)"

text \<open>The row the two loops and the selection produce from the dict of a request.\<close>

definition feature_row :: "(string \<Rightarrow> pyval option) \<Rightarrow> (string \<times> pyval) list \<Rightarrow> dataframe" where
  "feature_row parse kvs =
     [(''Time_spent_Alone'', to_numeric parse (py_get kvs ''Time_spent_Alone'')),
      (''Stage_fear'', categorical_value (py_get kvs ''Stage_fear'')),
      (''Social_event_attendance'', to_numeric parse (py_get kvs ''Social_event_attendance'')),
      (''Going_outside'', to_numeric parse (py_get kvs ''Going_outside'')),
      (''Drained_after_socializing'', categorical_value (py_get kvs ''Drained_after_socializing'')),
      (''Friends_circle_size'', to_numeric parse (py_get kvs ''Friends_circle_size'')),
      (''Post_frequency'', to_numeric parse (py_get kvs ''Post_frequency''))]"

text \<open>The row of a request that has none of the seven fields.\<close>

definition missing_row :: dataframe where
  "missing_row =
     [(''Time_spent_Alone'', nan),
      (''Stage_fear'', PyInt 0),
      (''Social_event_attendance'', nan),
      (''Going_outside'', nan),
      (''Drained_after_socializing'', PyInt 0),
      (''Friends_circle_size'', nan),
      (''Post_frequency'', nan)]"

text \<open>The two JSON payloads of the error paths of \<^verbatim>\<open>predict\<close> (lines 88 and 128).\<close>

definition unavailable_response :: response where
  "unavailable_response =
     Response 500 (JsonBody (PyDict
       [(''error'', PyStr ''Prediction service unavailable: Model not loaded on server.'')]))"

definition internal_error_response :: "exn \<Rightarrow> response" where
  "internal_error_response e =
     Response 500 (JsonBody (PyDict
       [(''error'', PyStr (''An internal server error occurred during prediction: '' @ str_exn e))]))"

section \<open>Sample artifacts and requests\<close>

text \<open>A classifier that answers one class for every row, an encoder of two classes, a
  number parser that reads unsigned decimal integers and nothing else, and the renderer
  of a Jinja2 that rejects every tag.\<close>

definition constant_model :: "int \<Rightarrow> classifier" where
  "constant_model i df = Inr [i]"

definition failing_model :: classifier where
  "failing_model df = Inl (Exn ValueError ''Input contains NaN.'')"

definition two_classes :: label_encoder where
  "two_classes = \<lparr>classes = [''Extrovert'', ''Introvert'']\<rparr>"

definition loaded_state :: model_state where
  "loaded_state = \<lparr>loaded_model = Some (constant_model 1), loaded_le_personality = Some two_classes\<rparr>"

definition parse_decimal :: "string \<Rightarrow> pyval option" where
  "parse_decimal s =
     (if s \<noteq> [] \<and> list_all (\<lambda>c. c \<in> set ''0123456789'') s
      then Some (PyInt (foldl (\<lambda>n c. 10 * n + (int (of_char c) - 48)) 0 s))
      else None)"

definition no_tags :: "string \<Rightarrow> exn + string" where
  "no_tags source = Inl (Exn TemplateSyntaxError ''unexpected tag'')"

definition json_request :: "pyval \<Rightarrow> request" where
  "json_request v = \<lparr>url_root = ''http://localhost:5000/'', get_json = Inr v\<rparr>"

section \<open>The row handed to the classifier\<close>

lemma input_features_dict_PyDict:
  "input_features_dict (PyDict kvs) expected_feature_order [] =
     Inr (map (\<lambda>f. (f, py_get kvs f)) expected_feature_order)"
  by (simp add: expected_feature_order_def request_data_get_def)

lemma categorical_step_hit:
  "map_of df col = Some cell \<Longrightarrow> categorical_step df col = dict_setitem df col (categorical_value cell)"
  by (simp add: categorical_step_def categorical_value_def df_setitem_def)

lemma numeric_step_hit:
  "map_of df col = Some cell \<Longrightarrow> numeric_step parse df col = dict_setitem df col (to_numeric parse cell)"
  by (simp add: numeric_step_def df_setitem_def)

lemma categorical_loop:
  "foldl categorical_step
     [(''Time_spent_Alone'', a), (''Stage_fear'', b), (''Social_event_attendance'', c),
      (''Going_outside'', d), (''Drained_after_socializing'', e), (''Friends_circle_size'', f),
      (''Post_frequency'', g)] [''Stage_fear'', ''Drained_after_socializing''] =
     [(''Time_spent_Alone'', a), (''Stage_fear'', categorical_value b), (''Social_event_attendance'', c),
      (''Going_outside'', d), (''Drained_after_socializing'', categorical_value e), (''Friends_circle_size'', f),
      (''Post_frequency'', g)]"
  by (simp add: categorical_step_hit)

lemma numeric_loop:
  "foldl (numeric_step parse)
     [(''Time_spent_Alone'', a), (''Stage_fear'', b), (''Social_event_attendance'', c),
      (''Going_outside'', d), (''Drained_after_socializing'', e), (''Friends_circle_size'', f),
      (''Post_frequency'', g)]
     [''Time_spent_Alone'', ''Social_event_attendance'', ''Going_outside'',
             ''Friends_circle_size'', ''Post_frequency''] =
     [(''Time_spent_Alone'', to_numeric parse a), (''Stage_fear'', b), (''Social_event_attendance'', to_numeric parse c),
      (''Going_outside'', to_numeric parse d), (''Drained_after_socializing'', e), (''Friends_circle_size'', to_numeric parse f),
      (''Post_frequency'', to_numeric parse g)]"
  by (simp add: numeric_step_hit)

lemma select_expected:
  "df_select
     [(''Time_spent_Alone'', a), (''Stage_fear'', b), (''Social_event_attendance'', c),
      (''Going_outside'', d), (''Drained_after_socializing'', e), (''Friends_circle_size'', f),
      (''Post_frequency'', g)] expected_feature_order =
   Inr [(''Time_spent_Alone'', a), (''Stage_fear'', b), (''Social_event_attendance'', c),
      (''Going_outside'', d), (''Drained_after_socializing'', e), (''Friends_circle_size'', f),
      (''Post_frequency'', g)]"
  by (simp add: expected_feature_order_def)

lemma build_input_df_row:
  "build_input_df parse (map (\<lambda>f. (f, py_get kvs f)) expected_feature_order) = Inr (feature_row parse kvs)"
proof -
  have "map (\<lambda>f. (f, py_get kvs f)) expected_feature_order =
     [(''Time_spent_Alone'', py_get kvs ''Time_spent_Alone''),
      (''Stage_fear'', py_get kvs ''Stage_fear''),
      (''Social_event_attendance'', py_get kvs ''Social_event_attendance''),
      (''Going_outside'', py_get kvs ''Going_outside''),
      (''Drained_after_socializing'', py_get kvs ''Drained_after_socializing''),
      (''Friends_circle_size'', py_get kvs ''Friends_circle_size''),
      (''Post_frequency'', py_get kvs ''Post_frequency'')]"
    by (simp add: expected_feature_order_def)
  then show ?thesis
    unfolding build_input_df_def Let_def feature_row_def
    by (simp only: categorical_loop numeric_loop select_expected)
qed

lemma model_inputs_append: "model_inputs (xs @ ys) = model_inputs xs @ model_inputs ys"
  by (induction xs rule: model_inputs.induct) simp_all

text \<open>On a dict body the try block reaches the classifier, with the row of the dict.\<close>

lemma predict_try_dict:
  assumes "get_json req = Inr (PyDict kvs)"
  shows "predict_try parse model le req =
     (case model (feature_row parse kvs) of
        Inl e \<Rightarrow>
          ([ParseBody,
            Stdout (''Received prediction request with raw data: '' @ py_str (PyDict kvs)),
            ModelPredict (feature_row parse kvs)], Inl e)
      | Inr y \<Rightarrow>
          ([ParseBody,
            Stdout (''Received prediction request with raw data: '' @ py_str (PyDict kvs)),
            ModelPredict (feature_row parse kvs), InverseTransform y],
           case inverse_transform le y of
             Inl e \<Rightarrow> Inl e
           | Inr [] \<Rightarrow> Inl (Exn IndexError ''index 0 is out of bounds for axis 0 with size 0'')
           | Inr (l # ls) \<Rightarrow> Inr (Response 200 (jsonify [(''prediction'', l)]))))"
  using assms
  by (simp add: predict_try_def input_features_dict_PyDict build_input_df_row Let_def
      split: sum.splits list.splits)

lemma predict_loaded:
  assumes "loaded_model st = Some model" and "loaded_le_personality st = Some le"
  shows "predict parse st req =
     (case predict_try parse model le req of
        (evs, Inr resp) \<Rightarrow> (resp, evs)
      | (evs, Inl e) \<Rightarrow>
          (internal_error_response e, evs @ [Stdout (''Error during prediction: '' @ str_exn e)]))"
  using assms
  by (simp add: predict_def internal_error_response_def jsonify_def split: prod.splits sum.splits)

lemma predict_model_inputs:
  assumes "loaded_model st = Some model" and "loaded_le_personality st = Some le"
    and "get_json req = Inr (PyDict kvs)"
  shows "model_inputs (snd (predict parse st req)) = [feature_row parse kvs]"
  by (simp add: predict_loaded [OF assms(1,2)] predict_try_dict [OF assms(3)] model_inputs_append
      split: sum.splits list.splits)

section \<open>The prediction endpoint without a model\<close>

text \<open>
  Claim C1. When the classifier or the label encoder is not loaded, \<^verbatim>\<open>predict\<close>
  answers every request, whatever its body, with status 500 and the JSON object whose
  only member \<^verbatim>\<open>error\<close> is "Prediction service unavailable: Model not loaded on
  server."; it does not parse the body, prints nothing and calls neither artifact: the
  list of its effects is empty.
\<close>

theorem predict_unavailable:
  assumes "model_unavailable st"
  shows "predict parse st req =
     (Response 500 (JsonBody (PyDict
        [(''error'', PyStr ''Prediction service unavailable: Model not loaded on server.'')])),
      [])"
  using assms
  by (auto simp: model_unavailable_def predict_def jsonify_def
      Option.is_none_def split: option.splits)

theorem predict_unavailable_witness:
  "model_unavailable \<lparr>loaded_model = Some (constant_model 1), loaded_le_personality = None\<rparr> \<and>
   predict parse_decimal \<lparr>loaded_model = Some (constant_model 1), loaded_le_personality = None\<rparr>
     (json_request (PyDict [])) =
   (Response 500 (JsonBody (PyDict
       [(''error'', PyStr ''Prediction service unavailable: Model not loaded on server.'')])), [])"
  using predict_unavailable [of "\<lparr>loaded_model = Some (constant_model 1), loaded_le_personality = None\<rparr>"
      parse_decimal "json_request (PyDict [])"]
  by (simp add: model_unavailable_def)

section \<open>The cells of the row\<close>

lemma feature_row_categorical:
  "col = ''Stage_fear'' \<or> col = ''Drained_after_socializing'' \<Longrightarrow>
   map_of (feature_row parse kvs) col = Some (categorical_value (py_get kvs col))"
  by (auto simp: feature_row_def)


lemma columns_feature_row: "columns (feature_row parse kvs) = expected_feature_order"
  by (simp add: columns_def feature_row_def expected_feature_order_def)

lemma map_eq_list_all2: "map f xs = map f ys \<longleftrightarrow> list_all2 (\<lambda>x y. f x = f y) xs ys"
proof (induction xs arbitrary: ys)
  case Nil
  then show ?case by simp
next
  case (Cons x xs)
  then show ?case by (cases ys) simp_all
qed

lemma lower_char_yes: "map lower_char ''yes'' = ''yes''"
  by (simp add: lower_char_def)

lemma str_lower_yes: "str_lower s = ''yes'' \<longleftrightarrow> caseless_eq s ''yes''"
proof -
  have "str_lower s = ''yes'' \<longleftrightarrow> map lower_char s = map lower_char ''yes''"
    by (simp only: str_lower_def lower_char_yes)
  then show ?thesis
    by (simp only: map_eq_list_all2 caseless_eq_def)
qed

lemma yes_to_int_caseless:
  "yes_to_int s = (if caseless_eq s ''yes'' then PyInt 1 else PyInt 0)"
  by (simp only: yes_to_int_def str_lower_yes)

lemma categorical_value_cases:
  "categorical_value (py_get kvs col) =
     (case dict_get kvs col of
        None \<Rightarrow> PyInt 0
      | Some PyNone \<Rightarrow> PyInt 0
      | Some v \<Rightarrow> if caseless_eq (py_str v) ''yes'' then PyInt 1 else PyInt 0)"
  by (simp add: categorical_value_def py_get_def astype_str_def yes_to_int_caseless
      split: option.splits pyval.splits)

lemma caseless_yes_samples:
  "caseless_eq ''YES'' ''yes''" "caseless_eq ''yes'' ''yes''" "caseless_eq ''Yes'' ''yes''"
  by (simp_all add: caseless_eq_def lower_char_def)

section \<open>Strings that do not read as yes\<close>

lemma lower_char_y: "lower_char c = CHR ''y'' \<Longrightarrow> c = CHR ''y'' \<or> c = CHR ''Y''"
  by (simp add: lower_char_def split: if_splits)

lemma lower_char_s: "lower_char c = CHR ''s'' \<Longrightarrow> c = CHR ''s'' \<or> c = CHR ''S''"
  by (simp add: lower_char_def split: if_splits)

lemma str_lower_yes_hd:
  assumes "str_lower s = ''yes''"
  shows "\<exists>c t. s = c # t \<and> (c = CHR ''y'' \<or> c = CHR ''Y'')"
proof (cases s)
  case Nil
  with assms show ?thesis by (simp add: str_lower_def)
next
  case (Cons c t)
  with assms have "lower_char c = CHR ''y''" by (simp add: str_lower_def)
  with Cons show ?thesis by (auto dest: lower_char_y)
qed

lemma str_lower_yes_last:
  assumes "str_lower (pre @ [d]) = ''yes''"
  shows "d = CHR ''s'' \<or> d = CHR ''S''"
proof -
  have "last (str_lower (pre @ [d])) = lower_char d"
    by (simp add: str_lower_def)
  with assms have "lower_char d = CHR ''s''" by simp
  then show ?thesis by (rule lower_char_s)
qed

lemma str_nat_last: "\<exists>pre. str_nat n = pre @ [''0123456789'' ! (n mod 10)]"
proof (cases "n < 10")
  case True
  then have "str_nat n = [] @ [''0123456789'' ! (n mod 10)]"
    by (simp add: str_nat.simps)
  then show ?thesis by blast
next
  case False
  then have "str_nat n = str_nat (n div 10) @ [''0123456789'' ! (n mod 10)]"
    by (simp add: str_nat.simps)
  then show ?thesis by blast
qed

lemma digit_not_s: "d < 10 \<Longrightarrow> ''0123456789'' ! d \<noteq> CHR ''s'' \<and> ''0123456789'' ! d \<noteq> CHR ''S''"
proof -
  assume "d < 10"
  then have "d \<in> {0, 1, 2, 3, 4, 5, 6, 7, 8, 9}" by auto
  then show ?thesis by auto
qed

lemma str_nat_not_yes: "str_lower (str_nat n) \<noteq> ''yes''"
proof
  assume yes: "str_lower (str_nat n) = ''yes''"
  obtain pre where "str_nat n = pre @ [''0123456789'' ! (n mod 10)]"
    using str_nat_last by blast
  with yes have "''0123456789'' ! (n mod 10) = CHR ''s'' \<or> ''0123456789'' ! (n mod 10) = CHR ''S''"
    by (simp add: str_lower_yes_last)
  moreover have "n mod 10 < 10" by simp
  ultimately show False using digit_not_s by blast
qed

lemma str_int_not_yes: "str_lower (str_int i) \<noteq> ''yes''"
proof (cases "i < 0")
  case True
  then show ?thesis
    by (auto simp: str_int_def dest!: str_lower_yes_hd)
next
  case False
  then show ?thesis
    by (simp add: str_int_def str_nat_not_yes)
qed

lemma yes_to_int_repr:
  "yes_to_int (py_repr (PyBool b)) = PyInt 0"
  "yes_to_int (py_repr (PyInt i)) = PyInt 0"
  "yes_to_int (py_repr (PyList xs)) = PyInt 0"
  "yes_to_int (py_repr (PyDict m)) = PyInt 0"
  by (auto simp: yes_to_int_def str_int_not_yes dest!: str_lower_yes_hd)

lemma yes_to_int_float:
  assumes "set r \<subseteq> set ''0123456789+-.einfa''"
  shows "yes_to_int (py_repr (PyFloat r)) = PyInt 0"
proof -
  have "str_lower r \<noteq> ''yes''"
  proof
    assume "str_lower r = ''yes''"
    then obtain c t where "r = c # t" and "c = CHR ''y'' \<or> c = CHR ''Y''"
      using str_lower_yes_hd by blast
    with assms show False by auto
  qed
  then show ?thesis by (simp add: yes_to_int_def)
qed

section \<open>The normalisation does not raise\<close>








section \<open>Requests that agree on the expected keys\<close>

lemma feature_row_agree:
  assumes "\<forall>f \<in> set expected_feature_order. dict_get kvs' f = dict_get kvs f"
  shows "feature_row parse kvs' = feature_row parse kvs"
proof -
  have "\<forall>f \<in> set expected_feature_order. py_get kvs' f = py_get kvs f"
    using assms by (simp add: py_get_def)
  then show ?thesis
    by (simp add: feature_row_def expected_feature_order_def)
qed

lemma map_of_filter_key:
  "P k \<Longrightarrow> map_of (filter (\<lambda>p. P (fst p)) xs) k = map_of xs k"
  by (induction xs) auto

lemma dict_get_filter:
  "P k \<Longrightarrow> dict_get (filter (\<lambda>p. P (fst p)) kvs) k = dict_get kvs k"
  by (simp add: dict_get_def rev_filter map_of_filter_key)

lemma dict_get_permuted:
  assumes "distinct (map fst kvs)" and "distinct (map fst kvs')" and "set kvs' = set kvs"
  shows "dict_get kvs' = dict_get kvs"
proof -
  have "distinct (map fst (rev kvs))" and "distinct (map fst (rev kvs'))"
    using assms(1,2) by (simp_all add: rev_map [symmetric])
  moreover have "set (rev kvs') = set (rev kvs)"
    using assms(3) by simp
  ultimately have "map_of (rev kvs') = map_of (rev kvs)"
    by (simp add: map_of_inject_set)
  then show ?thesis
    by (simp add: dict_get_def fun_eq_iff)
qed

section \<open>The error branch of the prediction endpoint\<close>

lemma contains_self: "contains s s"
  by (cases s) simp_all

lemma contains_suffix: "contains (a @ s) s"
  by (induction a) (simp_all add: contains_self)

lemma input_features_dict_not_dict:
  assumes "\<forall>kvs. v \<noteq> PyDict kvs"
  shows "input_features_dict v expected_feature_order [] =
     Inl (Exn AttributeError
       (squote @ type_name v @ squote @ '' object has no attribute '' @ squote @ ''get'' @ squote))"
  using assms
  by (cases v) (simp_all add: expected_feature_order_def request_data_get_def)

lemma predict_try_parse_error:
  "get_json req = Inl e \<Longrightarrow> predict_try parse model le req = ([ParseBody], Inl e)"
  by (simp add: predict_try_def)

lemma predict_try_get_error:
  "get_json req = Inr v \<Longrightarrow> input_features_dict v expected_feature_order [] = Inl e \<Longrightarrow>
   predict_try parse model le req =
     ([ParseBody, Stdout (''Received prediction request with raw data: '' @ py_str v)], Inl e)"
  by (simp add: predict_try_def Let_def)

lemma predict_try_ok_status:
  "predict_try parse model le req = (evs, Inr resp) \<Longrightarrow> status_code resp = 200"
  by (auto simp: predict_try_def Let_def split: sum.splits list.splits)

lemma predict_raised:
  assumes "loaded_model st = Some model" and "loaded_le_personality st = Some le"
    and "predict_try parse model le req = (evs, Inl e)"
  shows "predict parse st req =
     (internal_error_response e, evs @ [Stdout (''Error during prediction: '' @ str_exn e)])"
  by (simp add: predict_loaded [OF assms(1,2)] assms(3))

lemma predict_status:
  assumes "loaded_model st = Some model" and "loaded_le_personality st = Some le"
  shows "status_code (fst (predict parse st req)) = 200 \<or> status_code (fst (predict parse st req)) = 500"
proof (cases "predict_try parse model le req")
  case (Pair evs r)
  show ?thesis
  proof (cases r)
    case (Inl e)
    with Pair show ?thesis
      by (simp add: predict_loaded [OF assms] internal_error_response_def)
  next
    case (Inr resp)
    with Pair have "status_code resp = 200"
      by (simp add: predict_try_ok_status)
    with Pair Inr show ?thesis
      by (simp add: predict_loaded [OF assms])
  qed
qed

lemma predict_not_dict:
  assumes "loaded_model st = Some model" and "loaded_le_personality st = Some le"
    and "get_json req = Inr v" and "\<forall>kvs. v \<noteq> PyDict kvs"
  shows "fst (predict parse st req) =
     internal_error_response (Exn AttributeError
       (squote @ type_name v @ squote @ '' object has no attribute '' @ squote @ ''get'' @ squote))"
  using assms(3)
  by (simp add: predict_loaded [OF assms(1,2)] predict_try_get_error
      input_features_dict_not_dict [OF assms(4)])

section \<open>A request without the expected fields\<close>

lemma dict_get_absent: "k \<notin> fst ` set kvs \<Longrightarrow> dict_get kvs k = None"
  by (simp add: dict_get_def map_of_eq_None_iff)

lemma feature_row_missing:
  assumes "\<forall>f \<in> set expected_feature_order. f \<notin> fst ` set kvs"
  shows "feature_row parse kvs = missing_row"
proof -
  have "\<forall>f \<in> set expected_feature_order. py_get kvs f = PyNone"
    using assms by (simp add: py_get_def dict_get_absent)
  then show ?thesis
    by (simp add: feature_row_def missing_row_def expected_feature_order_def categorical_value_def)
qed

lemma inverse_transform_known:
  assumes "y \<noteq> []" and "\<forall>i \<in> set y. 0 \<le> i \<and> i < int (length (classes le))"
  shows "inverse_transform le y = Inr (map (\<lambda>i. classes le ! nat i) y)"
proof -
  have "filter (\<lambda>i. \<not> (0 \<le> i \<and> i < int (length (classes le)))) (sort (remdups y)) = []"
    using assms(2) by (simp add: filter_empty_conv)
  with assms(1) show ?thesis
    by (simp add: inverse_transform_def)
qed

lemma predict_missing_row_called:
  assumes "loaded_model st = Some model" and "loaded_le_personality st = Some le"
    and "get_json req = Inr (PyDict kvs)"
    and "\<forall>f \<in> set expected_feature_order. f \<notin> fst ` set kvs"
  shows "model_inputs (snd (predict parse st req)) = [missing_row]"
  using predict_model_inputs [OF assms(1-3)] feature_row_missing [OF assms(4)] by simp

lemma predict_missing_row_label:
  assumes "loaded_model st = Some model" and "loaded_le_personality st = Some le"
    and "get_json req = Inr (PyDict kvs)"
    and "\<forall>f \<in> set expected_feature_order. f \<notin> fst ` set kvs"
    and "model missing_row = Inr y" and "y \<noteq> []"
    and "\<forall>i \<in> set y. 0 \<le> i \<and> i < int (length (classes le))"
  shows "\<exists>label \<in> set (classes le).
           fst (predict parse st req) =
             Response 200 (JsonBody (PyDict [(''prediction'', PyStr label)]))"
proof -
  obtain i r where y: "y = i # r"
    using assms(6) by (cases y) auto
  have i: "0 \<le> i" "i < int (length (classes le))"
    using assms(7) y by auto
  let ?label = "classes le ! nat i"
  have row: "feature_row parse kvs = missing_row"
    by (rule feature_row_missing [OF assms(4)])
  have dec: "inverse_transform le y = Inr (?label # map (\<lambda>i. classes le ! nat i) r)"
    using inverse_transform_known [OF assms(6,7)] y by simp
  have "?label \<in> set (classes le)"
    using i by simp
  moreover have "fst (predict parse st req) =
      Response 200 (JsonBody (PyDict [(''prediction'', PyStr ?label)]))"
    by (simp add: predict_loaded [OF assms(1,2)] predict_try_dict [OF assms(3)] row assms(5) dec
        jsonify_def)
  ultimately show ?thesis by blast
qed

section \<open>Rendering a page without tags\<close>

lemma contains_two_following: "contains s [a, b] \<longleftrightarrow> b \<in> set (following a s)"
  by (induction a s rule: following.induct) auto

lemma following_append:
  "following a (x @ y) =
     following a x @ (if x \<noteq> [] \<and> y \<noteq> [] \<and> last x = a then [hd y] else []) @ following a y"
proof (induction a x rule: following.induct)
  case (1 a)
  then show ?case by simp
next
  case (2 a c)
  then show ?case by (cases y) simp_all
next
  case (3 a c d cs)
  then show ?case by simp
qed

lemma following_absent: "a \<notin> set s \<Longrightarrow> following a s = []"
  by (induction a s rule: following.induct) auto

lemma welcome_head_brace: "following CHR ''{'' welcome_head = []"
  unfolding welcome_head_def
  by (simp add: following_append del: append.simps)

lemma welcome_tail_brace: "following CHR ''{'' welcome_tail = [CHR 0x0A]"
  unfolding welcome_tail_def
  by (simp add: following_append del: append.simps)

lemma welcome_tail_hash: "CHR ''}'' \<notin> set (following CHR ''#'' welcome_tail)"
  unfolding welcome_tail_def
  by (simp add: following_append del: append.simps)

lemma welcome_ends:
  "last welcome_head = CHR ''>''" "hd welcome_tail = CHR ''<''" "last welcome_tail = CHR '' ''"
  "CHR 0x0D \<notin> set welcome_head" "CHR 0x0D \<notin> set welcome_tail"
  "welcome_head \<noteq> []" "welcome_tail \<noteq> []"
  unfolding welcome_head_def welcome_tail_def
  by (simp_all del: append.simps)

lemma normalize_newlines_plain: "CHR 0x0D \<notin> set s \<Longrightarrow> normalize_newlines s = s"
  by (induction s) auto

text \<open>Text without a comment tag is output as it is.\<close>

lemma lex_data_append:
  assumes "CHR ''#'' \<notin> set (following CHR ''{'' x)" and "x = [] \<or> last x \<noteq> CHR ''{''"
  shows "lex_data seg (x @ y) = lex_data (rev x @ seg) y"
  using assms
proof (induction x arbitrary: seg)
  case Nil
  then show ?case by simp
next
  case (Cons c x)
  show ?case
  proof (cases x)
    case Nil
    with Cons.prems have "c \<noteq> CHR ''{''" by simp
    with Nil show ?thesis by simp
  next
    case (Cons d x')
    with Cons.prems have no: "\<not> (c = CHR ''{'' \<and> d = CHR ''#'')"
      by auto
    have "CHR ''#'' \<notin> set (following CHR ''{'' x)" and "x = [] \<or> last x \<noteq> CHR ''{''"
      using Cons.prems Cons by (auto split: if_splits)
    then have "lex_data (c # seg) (x @ y) = lex_data (rev x @ c # seg) y"
      by (rule Cons.IH)
    with no Cons show ?thesis by auto
  qed
qed

lemma lex_data_plain:
  assumes "CHR ''#'' \<notin> set (following CHR ''{'' s)" and "s = [] \<or> last s \<noteq> CHR ''{''"
  shows "lex_data [] s = Inr s"
  using lex_data_append [OF assms, of "[]" "[]"] by simp

lemma comment_end_none: "CHR ''}'' \<notin> set (following CHR ''#'' s) \<Longrightarrow> comment_end s = None"
proof (induction s)
  case Nil
  then show ?case by simp
next
  case (Cons c s)
  show ?case
  proof (cases s)
    case Nil
    then show ?thesis by simp
  next
    case (Cons d s')
    note s = this
    show ?thesis
    proof (cases s')
      case Nil
      with s Cons.prems show ?thesis by (auto split: if_splits)
    next
      case (Cons e s'')
      with s Cons.prems Cons.IH show ?thesis by (auto split: if_splits)
    qed
  qed
qed

lemma uri_chars_plain:
  assumes "list_all uri_char r"
  shows "CHR ''{'' \<notin> set r" and "CHR 0x0D \<notin> set r"
proof -
  have "\<not> uri_char CHR ''{''" and "\<not> uri_char CHR 0x0D"
    by (simp_all add: uri_char_def)
  with assms show "CHR ''{'' \<notin> set r" and "CHR 0x0D \<notin> set r"
    by (auto simp: list_all_iff)
qed

lemma welcome_message_braces:
  "following CHR ''{'' (welcome_message (r @ ''predict'')) =
     following CHR ''{'' r @ (if r \<noteq> [] \<and> last r = CHR ''{'' then ''p'' else []) @ [CHR 0x0A]"
proof -
  define mid where "mid = r @ ''predict''"
  have mid: "mid \<noteq> []" "last mid = CHR ''t''"
    "following CHR ''{'' mid =
       following CHR ''{'' r @ (if r \<noteq> [] \<and> last r = CHR ''{'' then ''p'' else [])"
    by (simp_all add: mid_def following_append)
  have "following CHR ''{'' (welcome_head @ mid @ welcome_tail) =
      following CHR ''{'' mid @ [CHR 0x0A]"
    by (simp add: following_append welcome_head_brace welcome_tail_brace welcome_ends mid(1,2))
  then show ?thesis
    by (simp add: welcome_message_def mid_def [symmetric] mid(3))
qed

lemma welcome_message_ends:
  "last (welcome_message e) = CHR '' ''" "welcome_message e \<noteq> []"
  "CHR 0x0D \<notin> set e \<Longrightarrow> CHR 0x0D \<notin> set (welcome_message e)"
  by (simp_all add: welcome_message_def welcome_ends)

lemma home_plain:
  assumes "list_all uri_char (url_root req)"
  shows "home jinja req = Inr (Response 200 (HtmlBody (welcome_message (url_root req @ ''predict''))))"
proof -
  let ?m = "welcome_message (url_root req @ ''predict'')"
  have "url_root req = [] \<or> last (url_root req) \<noteq> CHR ''{''"
    using uri_chars_plain(1) [OF assms] last_in_set by fastforce
  then have braces: "following CHR ''{'' ?m = [CHR 0x0A]"
    using uri_chars_plain(1) [OF assms]
    by (auto simp: welcome_message_braces following_absent)
  have tags: "\<not> contains ?m ''{{''" "\<not> contains ?m ''{%''"
    by (simp_all only: contains_two_following braces) simp_all
  have "CHR 0x0D \<notin> set ?m"
    using uri_chars_plain(2) [OF assms] by (simp add: welcome_message_ends)
  then have norm: "normalize_newlines ?m = ?m"
    by (rule normalize_newlines_plain)
  have strip: "strip_trailing_newline ?m = ?m"
    by (simp add: strip_trailing_newline_def welcome_message_ends)
  have "lex_data [] ?m = Inr ?m"
    by (rule lex_data_plain) (simp_all add: braces welcome_message_ends)
  then show ?thesis
    by (simp add: home_def Let_def render_template_string_def tags norm strip)
qed

lemma contains_nil: "contains b []"
  by (cases b) simp_all

lemma contains_prefix: "contains (s @ b) s"
  by (cases s) (simp_all add: contains_nil)

lemma contains_append_left: "contains y p \<Longrightarrow> contains (x @ y) p"
  by (induction x) simp_all

lemma welcome_message_contains: "contains (welcome_message e) e"
  unfolding welcome_message_def
  by (intro contains_append_left contains_prefix)

text \<open>For a URL root made of URI characters, \<^verbatim>\<open>home\<close> returns the page with status
  200, and the page shows the root followed by \<^verbatim>\<open>predict\<close>.\<close>

lemma home_shows_endpoint:
  assumes "list_all uri_char (url_root req)"
  shows "\<exists>page. home jinja req = Inr (Response 200 (HtmlBody page)) \<and>
           contains page (url_root req @ ''predict'')"
  using home_plain [OF assms] welcome_message_contains by blast

section \<open>A failed load\<close>

lemma load_try_failure:
  assumes "model_file = Inl e \<or> (\<exists>m. model_file = Inr m \<and> encoder_file = Inl e)"
  shows "\<exists>st. load_try model_file encoder_file = (st, [], Some e) \<and> model_unavailable st"
  using assms
  by (auto simp: load_try_def model_unavailable_def)

lemma predict_no_model:
  "model_unavailable st \<Longrightarrow> predict parse st req = (unavailable_response, [])"
  by (auto simp: model_unavailable_def predict_def unavailable_response_def jsonify_def
      Option.is_none_def split: option.splits)


lemma injected_comment:
  "lex_data seg (''http://{#/predict'' @ welcome_tail) =
     Inl (Exn TemplateSyntaxError ''Missing end of comment tag'')"
proof -
  have "comment_end welcome_tail = None"
    by (rule comment_end_none [OF welcome_tail_hash])
  then have "comment_end (''/predict'' @ welcome_tail) = None"
    by simp
  then show ?thesis
    by simp
qed

text \<open>What a failed load leaves behind, for requests whose URL root is made of URI
  characters.\<close>

lemma load_failure_is_not_fatal:
  assumes "model_file = Inl e \<or> (\<exists>m. model_file = Inr m \<and> encoder_file = Inl e)"
  shows "\<exists>st out. load_artifacts model_file encoder_file = (st, out) \<and>
           model_unavailable st \<and>
           out = (if exn_class_of e = FileNotFoundError then file_not_found_output
                  else unexpected_error_output e) \<and>
           out \<noteq> [] \<and>
           (\<forall>jinja parse req. app jinja parse st Predict req = (unavailable_response, [])) \<and>
           (\<forall>jinja parse req. list_all uri_char (url_root req) \<longrightarrow>
              app jinja parse st Root req =
                (Response 200 (HtmlBody (welcome_message (url_root req @ ''predict''))), []))"
proof -
  obtain st where tried: "load_try model_file encoder_file = (st, [], Some e)"
    and off: "model_unavailable st"
    using load_try_failure [OF assms] by blast
  let ?out = "if exn_class_of e = FileNotFoundError then file_not_found_output
      else unexpected_error_output e"
  have "load_artifacts model_file encoder_file = (st, ?out)"
    by (simp add: load_artifacts_def tried)
  moreover have "?out \<noteq> []"
    by (simp add: file_not_found_output_def unexpected_error_output_def)
  moreover have "\<forall>jinja parse req. app jinja parse st Predict req = (unavailable_response, [])"
    by (simp add: app_def predict_no_model [OF off])
  moreover have "\<forall>jinja parse req. list_all uri_char (url_root req) \<longrightarrow>
      app jinja parse st Root req =
        (Response 200 (HtmlBody (welcome_message (url_root req @ ''predict''))), [])"
    by (simp add: app_def home_plain flask_view_def)
  ultimately show ?thesis
    using off by blast
qed


text \<open>A URL root with the start of a comment: the renderer finds no end of it.\<close>

lemma home_unclosed_comment:
  "home jinja \<lparr>url_root = ''http://{#/'', get_json = b\<rparr> =
     Inl (Exn TemplateSyntaxError ''Missing end of comment tag'')"
proof -
  let ?m = "welcome_message ''http://{#/predict''"
  have braces: "following CHR ''{'' ?m = ''#'' @ [CHR 0x0A]"
    using welcome_message_braces [of "''http://{#/''"] by simp
  have tags: "\<not> contains ?m ''{{''" "\<not> contains ?m ''{%''"
    by (simp_all only: contains_two_following braces) simp_all
  have "CHR 0x0D \<notin> set ?m"
    by (rule welcome_message_ends(3)) simp
  then have norm: "normalize_newlines ?m = ?m"
    by (rule normalize_newlines_plain)
  have strip: "strip_trailing_newline ?m = ?m"
    by (simp add: strip_trailing_newline_def welcome_message_ends)
  have "lex_data [] (welcome_head @ (''http://{#/predict'' @ welcome_tail)) =
      lex_data (rev welcome_head @ []) (''http://{#/predict'' @ welcome_tail)"
    by (rule lex_data_append) (simp_all add: welcome_head_brace welcome_ends)
  then have "lex_data [] ?m = Inl (Exn TemplateSyntaxError ''Missing end of comment tag'')"
    by (simp only: injected_comment welcome_message_def append_assoc)
  then show ?thesis
    by (simp add: home_def Let_def render_template_string_def tags norm strip)
qed

lemma app_unclosed_comment:
  "app jinja parse st Root \<lparr>url_root = ''http://{#/'', get_json = b\<rparr> = (internal_server_error, [])"
  by (simp add: app_def flask_view_def home_unclosed_comment)

section \<open>The categorical fields\<close>

text \<open>
  Claim C3. For each of the two categorical fields \<^verbatim>\<open>Stage_fear\<close> and
  \<^verbatim>\<open>Drained_after_socializing\<close> of a JSON object: a value that is present and not
  null is turned into its string and compared with "yes" without regard to case, giving 1
  when they are equal and 0 when not; a field that is absent or null gives 0. In
  particular "YES", "yes" and "Yes" give 1. The cell is the one in the row the classifier
  is called with.
\<close>

theorem categorical_fields_normalized:
  assumes "loaded_model st = Some model" and "loaded_le_personality st = Some le"
    and "get_json req = Inr (PyDict kvs)"
    and "col = ''Stage_fear'' \<or> col = ''Drained_after_socializing''"
  shows "\<exists>df. model_inputs (snd (predict parse st req)) = [df] \<and>
           map_of df col =
             Some (case dict_get kvs col of
                     None \<Rightarrow> PyInt 0
                   | Some PyNone \<Rightarrow> PyInt 0
                   | Some v \<Rightarrow> if caseless_eq (py_str v) ''yes'' then PyInt 1 else PyInt 0) \<and>
           (\<forall>s \<in> {''YES'', ''yes'', ''Yes''}.
              dict_get kvs col = Some (PyStr s) \<longrightarrow> map_of df col = Some (PyInt 1))"
proof (intro exI conjI)
  show "model_inputs (snd (predict parse st req)) = [feature_row parse kvs]"
    by (rule predict_model_inputs [OF assms(1-3)])
  show cell: "map_of (feature_row parse kvs) col =
      Some (case dict_get kvs col of
              None \<Rightarrow> PyInt 0
            | Some PyNone \<Rightarrow> PyInt 0
            | Some v \<Rightarrow> if caseless_eq (py_str v) ''yes'' then PyInt 1 else PyInt 0)"
    by (simp only: feature_row_categorical [OF assms(4)] categorical_value_cases)
  show "\<forall>s \<in> {''YES'', ''yes'', ''Yes''}.
      dict_get kvs col = Some (PyStr s) \<longrightarrow> map_of (feature_row parse kvs) col = Some (PyInt 1)"
    using caseless_yes_samples by (auto simp: cell)
qed


theorem categorical_fields_normalized_witness:
  "\<exists>df. model_inputs (snd (predict parse_decimal loaded_state
            (json_request (PyDict [(''Stage_fear'', PyStr ''YES''), (''Drained_after_socializing'', PyStr ''no'')])))) = [df] \<and>
        map_of df ''Stage_fear'' = Some (PyInt 1)"
  using categorical_fields_normalized [of loaded_state "constant_model 1" two_classes
      "json_request (PyDict [(''Stage_fear'', PyStr ''YES''), (''Drained_after_socializing'', PyStr ''no'')])"
      "[(''Stage_fear'', PyStr ''YES''), (''Drained_after_socializing'', PyStr ''no'')]"
      "''Stage_fear''" parse_decimal]
  by (auto simp: loaded_state_def json_request_def dict_get_def caseless_eq_def lower_char_def)

section \<open>Categorical fields that are not strings\<close>

text \<open>
  Claim C10. A categorical field given a JSON value that is neither a string nor null
  goes through the string conversion: the cell is 1 only when the string of the value,
  in lower case, is exactly "yes". The boolean \<^verbatim>\<open>true\<close> and the number 1 give 0, and
  so does every boolean, integer, list, object and float.
\<close>

theorem categorical_non_string:
  assumes "loaded_model st = Some model" and "loaded_le_personality st = Some le"
    and "get_json req = Inr (PyDict kvs)"
    and "col = ''Stage_fear'' \<or> col = ''Drained_after_socializing''"
    and "dict_get kvs col = Some v" and "v \<noteq> PyNone" and "\<forall>s. v \<noteq> PyStr s"
  shows "\<exists>df. model_inputs (snd (predict parse st req)) = [df] \<and>
           map_of df col = Some (if str_lower (py_repr v) = ''yes'' then PyInt 1 else PyInt 0) \<and>
           (v = PyBool True \<or> v = PyInt 1 \<longrightarrow> map_of df col = Some (PyInt 0)) \<and>
           ((\<forall>r. v = PyFloat r \<longrightarrow> set r \<subseteq> set ''0123456789+-.einfa'') \<longrightarrow>
              map_of df col = Some (PyInt 0))"
proof (intro exI conjI)
  show "model_inputs (snd (predict parse st req)) = [feature_row parse kvs]"
    by (rule predict_model_inputs [OF assms(1-3)])
  have str: "py_str v = py_repr v"
    using assms(7) by (cases v) simp_all
  have cell: "map_of (feature_row parse kvs) col = Some (yes_to_int (py_repr v))"
    using assms(5,6)
    by (simp add: feature_row_categorical [OF assms(4)] categorical_value_def py_get_def
        astype_str_def str)
  show "map_of (feature_row parse kvs) col =
      Some (if str_lower (py_repr v) = ''yes'' then PyInt 1 else PyInt 0)"
    by (simp add: cell yes_to_int_def)
  show "v = PyBool True \<or> v = PyInt 1 \<longrightarrow> map_of (feature_row parse kvs) col = Some (PyInt 0)"
    by (auto simp: cell yes_to_int_repr simp del: py_repr.simps)
  show "(\<forall>r. v = PyFloat r \<longrightarrow> set r \<subseteq> set ''0123456789+-.einfa'') \<longrightarrow>
      map_of (feature_row parse kvs) col = Some (PyInt 0)"
  proof
    assume wf: "\<forall>r. v = PyFloat r \<longrightarrow> set r \<subseteq> set ''0123456789+-.einfa''"
    show "map_of (feature_row parse kvs) col = Some (PyInt 0)"
    proof (cases v)
      case (PyFloat r)
      with wf show ?thesis by (simp only: cell yes_to_int_float)
    qed (use assms(6,7) in \<open>simp_all only: cell yes_to_int_repr\<close>)
  qed
qed

theorem categorical_non_string_witness:
  "(\<exists>df. model_inputs (snd (predict parse_decimal loaded_state
            (json_request (PyDict [(''Stage_fear'', PyBool True)])))) = [df] \<and>
         map_of df ''Stage_fear'' = Some (PyInt 0)) \<and>
   (\<exists>df. model_inputs (snd (predict parse_decimal loaded_state
            (json_request (PyDict [(''Drained_after_socializing'', PyInt 1)])))) = [df] \<and>
         map_of df ''Drained_after_socializing'' = Some (PyInt 0))"
  using categorical_non_string [of loaded_state "constant_model 1" two_classes
      "json_request (PyDict [(''Stage_fear'', PyBool True)])"
      "[(''Stage_fear'', PyBool True)]" "''Stage_fear''" "PyBool True" parse_decimal]
    categorical_non_string [of loaded_state "constant_model 1" two_classes
      "json_request (PyDict [(''Drained_after_socializing'', PyInt 1)])"
      "[(''Drained_after_socializing'', PyInt 1)]" "''Drained_after_socializing''" "PyInt 1" parse_decimal]
  by (auto simp: loaded_state_def json_request_def dict_get_def)

section \<open>The numeric fields\<close>



section \<open>The order of the features\<close>

text \<open>
  Claim C4. For every JSON object the DataFrame handed to the classifier has exactly the
  seven expected columns, in the fixed order \<^verbatim>\<open>Time_spent_Alone\<close>, \<^verbatim>\<open>Stage_fear\<close>,
  \<^verbatim>\<open>Social_event_attendance\<close>, \<^verbatim>\<open>Going_outside\<close>, \<^verbatim>\<open>Drained_after_socializing\<close>,
  \<^verbatim>\<open>Friends_circle_size\<close>, \<^verbatim>\<open>Post_frequency\<close>. It depends only on the values of the
  seven keys: a body with the same members in another order, and a body that differs only
  in other keys, give the same DataFrame.
\<close>

theorem feature_vector_fixed_order:
  assumes "loaded_model st = Some model" and "loaded_le_personality st = Some le"
    and "get_json req = Inr (PyDict kvs)"
  shows "\<exists>df. model_inputs (snd (predict parse st req)) = [df] \<and>
           columns df = expected_feature_order \<and>
           length df = 7 \<and>
           (\<forall>(req' :: request) kvs'. get_json req' = Inr (PyDict kvs') \<and>
               (\<forall>f \<in> set expected_feature_order. dict_get kvs' f = dict_get kvs f) \<longrightarrow>
               model_inputs (snd (predict parse st req')) = [df]) \<and>
           (\<forall>(req' :: request) kvs'. get_json req' = Inr (PyDict kvs') \<and>
               distinct (map fst kvs) \<and> distinct (map fst kvs') \<and> set kvs' = set kvs \<longrightarrow>
               model_inputs (snd (predict parse st req')) = [df]) \<and>
           (\<forall>(req' :: request) kvs'. get_json req' = Inr (PyDict kvs') \<and>
               filter (\<lambda>p. fst p \<in> set expected_feature_order) kvs' =
               filter (\<lambda>p. fst p \<in> set expected_feature_order) kvs \<longrightarrow>
               model_inputs (snd (predict parse st req')) = [df])"
proof (intro exI conjI)
  show "model_inputs (snd (predict parse st req)) = [feature_row parse kvs]"
    by (rule predict_model_inputs [OF assms])
  show "columns (feature_row parse kvs) = expected_feature_order"
    by (rule columns_feature_row)
  show "length (feature_row parse kvs) = 7"
    by (simp add: feature_row_def)
  show agree: "\<forall>(req' :: request) kvs'. get_json req' = Inr (PyDict kvs') \<and>
      (\<forall>f \<in> set expected_feature_order. dict_get kvs' f = dict_get kvs f) \<longrightarrow>
      model_inputs (snd (predict parse st req')) = [feature_row parse kvs]"
  proof (intro allI impI)
    fix req' :: request and kvs'
    assume h: "get_json req' = Inr (PyDict kvs') \<and>
      (\<forall>f \<in> set expected_feature_order. dict_get kvs' f = dict_get kvs f)"
    then have "model_inputs (snd (predict parse st req')) = [feature_row parse kvs']"
      using predict_model_inputs [OF assms(1,2)] by blast
    moreover have "feature_row parse kvs' = feature_row parse kvs"
      using h by (intro feature_row_agree) blast
    ultimately show "model_inputs (snd (predict parse st req')) = [feature_row parse kvs]"
      by simp
  qed
  show "\<forall>(req' :: request) kvs'. get_json req' = Inr (PyDict kvs') \<and>
      distinct (map fst kvs) \<and> distinct (map fst kvs') \<and> set kvs' = set kvs \<longrightarrow>
      model_inputs (snd (predict parse st req')) = [feature_row parse kvs]"
  proof (intro allI impI)
    fix req' :: request and kvs'
    assume h: "get_json req' = Inr (PyDict kvs') \<and>
      distinct (map fst kvs) \<and> distinct (map fst kvs') \<and> set kvs' = set kvs"
    then have "dict_get kvs' = dict_get kvs"
      by (simp add: dict_get_permuted)
    with h agree show "model_inputs (snd (predict parse st req')) = [feature_row parse kvs]"
      by simp
  qed
  show "\<forall>(req' :: request) kvs'. get_json req' = Inr (PyDict kvs') \<and>
      filter (\<lambda>p. fst p \<in> set expected_feature_order) kvs' =
      filter (\<lambda>p. fst p \<in> set expected_feature_order) kvs \<longrightarrow>
      model_inputs (snd (predict parse st req')) = [feature_row parse kvs]"
  proof (intro allI impI)
    fix req' :: request and kvs'
    assume h: "get_json req' = Inr (PyDict kvs') \<and>
      filter (\<lambda>p. fst p \<in> set expected_feature_order) kvs' =
      filter (\<lambda>p. fst p \<in> set expected_feature_order) kvs"
    have "\<forall>f \<in> set expected_feature_order. dict_get kvs' f = dict_get kvs f"
    proof
      fix f assume f: "f \<in> set expected_feature_order"
      have "dict_get kvs' f = dict_get (filter (\<lambda>p. fst p \<in> set expected_feature_order) kvs') f"
        using f by (simp add: dict_get_filter [where P = "\<lambda>k. k \<in> set expected_feature_order"])
      also have "\<dots> = dict_get (filter (\<lambda>p. fst p \<in> set expected_feature_order) kvs) f"
        using h by simp
      also have "\<dots> = dict_get kvs f"
        using f by (simp add: dict_get_filter [where P = "\<lambda>k. k \<in> set expected_feature_order"])
      finally show "dict_get kvs' f = dict_get kvs f" .
    qed
    with h agree show "model_inputs (snd (predict parse st req')) = [feature_row parse kvs]"
      by blast
  qed
qed

theorem feature_vector_fixed_order_witness:
  "\<exists>df. model_inputs (snd (predict parse_decimal loaded_state
            (json_request (PyDict [(''Post_frequency'', PyInt 3), (''Stage_fear'', PyStr ''Yes'')])))) = [df] \<and>
        columns df = expected_feature_order \<and>
        model_inputs (snd (predict parse_decimal loaded_state
            (json_request (PyDict [(''Stage_fear'', PyStr ''Yes''), (''shoe_size'', PyInt 44),
               (''Post_frequency'', PyInt 3)])))) = [df]"
proof -
  let ?kvs = "[(''Post_frequency'', PyInt 3), (''Stage_fear'', PyStr ''Yes'')]"
  let ?kvs' = "[(''Stage_fear'', PyStr ''Yes''), (''shoe_size'', PyInt 44), (''Post_frequency'', PyInt 3)]"
  have loaded: "loaded_model loaded_state = Some (constant_model 1)"
    "loaded_le_personality loaded_state = Some two_classes"
    by (simp_all add: loaded_state_def)
  have body: "get_json (json_request (PyDict ?kvs)) = Inr (PyDict ?kvs)"
    by (simp add: json_request_def)
  obtain df where called: "model_inputs (snd (predict parse_decimal loaded_state (json_request (PyDict ?kvs)))) = [df]"
    and cols: "columns df = expected_feature_order"
    and same: "\<forall>(req' :: request) kvs'. get_json req' = Inr (PyDict kvs') \<and>
               (\<forall>f \<in> set expected_feature_order. dict_get kvs' f = dict_get ?kvs f) \<longrightarrow>
               model_inputs (snd (predict parse_decimal loaded_state req')) = [df]"
    using feature_vector_fixed_order [OF loaded body, of parse_decimal] by blast
  have "model_inputs (snd (predict parse_decimal loaded_state (json_request (PyDict ?kvs')))) = [df]"
    using same [rule_format, of "json_request (PyDict ?kvs')" ?kvs']
    by (simp add: json_request_def expected_feature_order_def dict_get_def)
  with called cols show ?thesis by blast
qed

section \<open>Exceptions during a prediction\<close>

text \<open>
  Claim C6. With the model loaded, every exception raised in the \<^verbatim>\<open>try\<close> block of
  \<^verbatim>\<open>predict\<close> is caught and answered with status 500 and the JSON object whose only
  member \<^verbatim>\<open>error\<close> is a message that ends with the text of the exception: be it raised
  by the parse of the body, by the extraction of the fields, by the classifier, or by the
  label encoder and the indexing of its result. The handler always returns a response,
  with status 200 or 500.
\<close>

theorem predict_catches_exceptions:
  assumes "loaded_model st = Some model" and "loaded_le_personality st = Some le"
  shows "(\<forall>evs e. predict_try parse model le req = (evs, Inl e) \<longrightarrow>
            predict parse st req =
              (internal_error_response e, evs @ [Stdout (''Error during prediction: '' @ str_exn e)])) \<and>
         (\<forall>e. get_json req = Inl e \<longrightarrow> fst (predict parse st req) = internal_error_response e) \<and>
         (\<forall>v e. get_json req = Inr v \<and> input_features_dict v expected_feature_order [] = Inl e \<longrightarrow>
            fst (predict parse st req) = internal_error_response e) \<and>
         (\<forall>kvs e. get_json req = Inr (PyDict kvs) \<and> model (feature_row parse kvs) = Inl e \<longrightarrow>
            fst (predict parse st req) = internal_error_response e) \<and>
         (\<forall>kvs y e. get_json req = Inr (PyDict kvs) \<and> model (feature_row parse kvs) = Inr y \<and>
              inverse_transform le y = Inl e \<longrightarrow>
            fst (predict parse st req) = internal_error_response e) \<and>
         (\<forall>kvs y. get_json req = Inr (PyDict kvs) \<and> model (feature_row parse kvs) = Inr y \<and>
              inverse_transform le y = Inr [] \<longrightarrow>
            fst (predict parse st req) =
              internal_error_response (Exn IndexError ''index 0 is out of bounds for axis 0 with size 0'')) \<and>
         (status_code (fst (predict parse st req)) = 200 \<or>
          status_code (fst (predict parse st req)) = 500) \<and>
         (\<forall>e. \<exists>msg. internal_error_response e = Response 500 (JsonBody (PyDict [(''error'', PyStr msg)])) \<and>
            contains msg (str_exn e))"
proof (intro conjI allI impI)
  fix evs e
  assume "predict_try parse model le req = (evs, Inl e)"
  then show "predict parse st req =
      (internal_error_response e, evs @ [Stdout (''Error during prediction: '' @ str_exn e)])"
    by (rule predict_raised [OF assms])
next
  fix e
  assume "get_json req = Inl e"
  then show "fst (predict parse st req) = internal_error_response e"
    by (simp add: predict_loaded [OF assms] predict_try_parse_error)
next
  fix v e
  assume "get_json req = Inr v \<and> input_features_dict v expected_feature_order [] = Inl e"
  then show "fst (predict parse st req) = internal_error_response e"
    by (simp add: predict_loaded [OF assms] predict_try_get_error)
next
  fix kvs e
  assume "get_json req = Inr (PyDict kvs) \<and> model (feature_row parse kvs) = Inl e"
  then show "fst (predict parse st req) = internal_error_response e"
    by (simp add: predict_loaded [OF assms] predict_try_dict)
next
  fix kvs y e
  assume "get_json req = Inr (PyDict kvs) \<and> model (feature_row parse kvs) = Inr y \<and>
      inverse_transform le y = Inl e"
  then show "fst (predict parse st req) = internal_error_response e"
    by (simp add: predict_loaded [OF assms] predict_try_dict)
next
  fix kvs y
  assume "get_json req = Inr (PyDict kvs) \<and> model (feature_row parse kvs) = Inr y \<and>
      inverse_transform le y = Inr []"
  then show "fst (predict parse st req) =
      internal_error_response (Exn IndexError ''index 0 is out of bounds for axis 0 with size 0'')"
    by (simp add: predict_loaded [OF assms] predict_try_dict)
next
  show "status_code (fst (predict parse st req)) = 200 \<or>
      status_code (fst (predict parse st req)) = 500"
    by (rule predict_status [OF assms])
next
  fix e
  show "\<exists>msg. internal_error_response e = Response 500 (JsonBody (PyDict [(''error'', PyStr msg)])) \<and>
      contains msg (str_exn e)"
    unfolding internal_error_response_def
    by (intro exI conjI, rule refl, rule contains_suffix)
qed

theorem predict_catches_exceptions_witness:
  "fst (predict parse_decimal loaded_state
      \<lparr>url_root = ''http://localhost:5000/'',
       get_json = Inl (Exn BadRequest ''400 Bad Request: Failed to decode JSON object'')\<rparr>) =
   Response 500 (JsonBody (PyDict
     [(''error'', PyStr (''An internal server error occurred during prediction: '' @
         ''400 Bad Request: Failed to decode JSON object''))])) \<and>
   fst (predict parse_decimal
      \<lparr>loaded_model = Some failing_model, loaded_le_personality = Some two_classes\<rparr>
      (json_request (PyDict []))) =
   Response 500 (JsonBody (PyDict
     [(''error'', PyStr (''An internal server error occurred during prediction: '' @
         ''Input contains NaN.''))]))"
  using predict_catches_exceptions [of loaded_state "constant_model 1" two_classes parse_decimal
      "\<lparr>url_root = ''http://localhost:5000/'',
       get_json = Inl (Exn BadRequest ''400 Bad Request: Failed to decode JSON object'')\<rparr>"]
    predict_catches_exceptions [of
      "\<lparr>loaded_model = Some failing_model, loaded_le_personality = Some two_classes\<rparr>"
      failing_model two_classes parse_decimal "json_request (PyDict [])"]
  by (simp add: loaded_state_def internal_error_response_def json_request_def failing_model_def)

section \<open>Bodies that are not JSON objects\<close>

text \<open>
  Claim C9. With the model loaded, a body that parses as JSON but is not an object
  (an array, a number, a string, a boolean or null) is answered with status 500 and a JSON
  error: the lookup \<^verbatim>\<open>request_data.get\<close> raises \<^verbatim>\<open>AttributeError\<close>, which the
  error branch catches. The classifier is not called.
\<close>

theorem predict_non_object_body:
  assumes "loaded_model st = Some model" and "loaded_le_personality st = Some le"
    and "get_json req = Inr v" and "\<forall>kvs. v \<noteq> PyDict kvs"
  shows "fst (predict parse st req) =
           Response 500 (JsonBody (PyDict
             [(''error'', PyStr (''An internal server error occurred during prediction: '' @
                 squote @ type_name v @ squote @ '' object has no attribute '' @
                 squote @ ''get'' @ squote))])) \<and>
         model_inputs (snd (predict parse st req)) = []"
  using assms(3)
  by (simp add: predict_loaded [OF assms(1,2)] predict_try_get_error
      input_features_dict_not_dict [OF assms(4)] internal_error_response_def)

theorem predict_non_object_body_witness:
  "fst (predict parse_decimal loaded_state (json_request (PyInt 42))) =
     Response 500 (JsonBody (PyDict
       [(''error'', PyStr (''An internal server error occurred during prediction: '' @
           squote @ ''int'' @ squote @ '' object has no attribute '' @ squote @ ''get'' @ squote))])) \<and>
   model_inputs (snd (predict parse_decimal loaded_state (json_request (PyInt 42)))) = []"
  using predict_non_object_body [of loaded_state "constant_model 1" two_classes
      "json_request (PyInt 42)" "PyInt 42" parse_decimal]
  by (simp add: loaded_state_def json_request_def)

section \<open>Bodies with none of the fields\<close>

text \<open>
  Claim C2, as stated, says that every body that is valid JSON and has none of the seven
  fields is answered with status 200. The JSON array \<^verbatim>\<open>[]\<close> is such a body, and it
  is answered with status 500: only a dict has \<^verbatim>\<open>get\<close>.
\<close>

theorem predict_empty_object_counterexample:
  "fst (predict parse_decimal loaded_state (json_request (PyList []))) =
     Response 500 (JsonBody (PyDict
       [(''error'', PyStr (''An internal server error occurred during prediction: '' @
           squote @ ''list'' @ squote @ '' object has no attribute '' @ squote @ ''get'' @ squote))]))"
proof -
  have loaded: "loaded_model loaded_state = Some (constant_model 1)"
    "loaded_le_personality loaded_state = Some two_classes"
    by (simp_all add: loaded_state_def)
  have body: "get_json (json_request (PyList [])) = Inr (PyList [])"
    by (simp add: json_request_def)
  have raised: "input_features_dict (PyList []) expected_feature_order [] =
      Inl (Exn AttributeError
        (squote @ ''list'' @ squote @ '' object has no attribute '' @ squote @ ''get'' @ squote))"
    using input_features_dict_not_dict [of "PyList []"] by simp
  show ?thesis
    by (simp add: predict_loaded [OF loaded] predict_try_get_error [OF body raised]
        internal_error_response_def)
qed

text \<open>
  Claim C2, amended. With the model loaded: for every JSON object that has none of the
  seven fields, the classifier is called with the five numeric columns missing (NaN) and
  the two categorical columns 0; when the classifier answers that row with class indices
  the label encoder knows, the response has status 200 and is the JSON object whose only
  member \<^verbatim>\<open>prediction\<close> is one of the encoder's classes. A body that is valid JSON
  but not an object (an array, a number, a string, a boolean or null) is answered with
  status 500 and a JSON error instead.
\<close>

theorem predict_empty_object:
  assumes "loaded_model st = Some model" and "loaded_le_personality st = Some le"
  shows "(\<forall>kvs. get_json req = Inr (PyDict kvs) \<and>
              (\<forall>f \<in> set expected_feature_order. f \<notin> fst ` set kvs) \<longrightarrow>
            model_inputs (snd (predict parse st req)) = [missing_row]) \<and>
         (\<forall>kvs y. get_json req = Inr (PyDict kvs) \<and>
              (\<forall>f \<in> set expected_feature_order. f \<notin> fst ` set kvs) \<and>
              model missing_row = Inr y \<and> y \<noteq> [] \<and>
              (\<forall>i \<in> set y. 0 \<le> i \<and> i < int (length (classes le))) \<longrightarrow>
            (\<exists>label \<in> set (classes le).
               fst (predict parse st req) =
                 Response 200 (JsonBody (PyDict [(''prediction'', PyStr label)])))) \<and>
         (\<forall>v. get_json req = Inr v \<and> (\<forall>kvs. v \<noteq> PyDict kvs) \<longrightarrow>
            fst (predict parse st req) =
              Response 500 (JsonBody (PyDict
                [(''error'', PyStr (''An internal server error occurred during prediction: '' @
                    squote @ type_name v @ squote @ '' object has no attribute '' @
                    squote @ ''get'' @ squote))])))"
proof (intro conjI allI impI)
  fix kvs
  assume "get_json req = Inr (PyDict kvs) \<and>
      (\<forall>f \<in> set expected_feature_order. f \<notin> fst ` set kvs)"
  then show "model_inputs (snd (predict parse st req)) = [missing_row]"
    using predict_missing_row_called [OF assms] by blast
next
  fix kvs y
  assume h: "get_json req = Inr (PyDict kvs) \<and>
      (\<forall>f \<in> set expected_feature_order. f \<notin> fst ` set kvs) \<and>
      model missing_row = Inr y \<and> y \<noteq> [] \<and>
      (\<forall>i \<in> set y. 0 \<le> i \<and> i < int (length (classes le)))"
  show "\<exists>label \<in> set (classes le).
      fst (predict parse st req) =
        Response 200 (JsonBody (PyDict [(''prediction'', PyStr label)]))"
  proof (rule predict_missing_row_label [OF assms])
    show "get_json req = Inr (PyDict kvs)" using h by blast
    show "\<forall>f \<in> set expected_feature_order. f \<notin> fst ` set kvs" using h by blast
    show "model missing_row = Inr y" using h by blast
    show "y \<noteq> []" using h by blast
    show "\<forall>i \<in> set y. 0 \<le> i \<and> i < int (length (classes le))" using h by blast
  qed
next
  fix v
  assume "get_json req = Inr v \<and> (\<forall>kvs. v \<noteq> PyDict kvs)"
  then have "fst (predict parse st req) =
      internal_error_response (Exn AttributeError
        (squote @ type_name v @ squote @ '' object has no attribute '' @ squote @ ''get'' @ squote))"
    using predict_not_dict [OF assms] by blast
  then show "fst (predict parse st req) =
      Response 500 (JsonBody (PyDict
        [(''error'', PyStr (''An internal server error occurred during prediction: '' @
            squote @ type_name v @ squote @ '' object has no attribute '' @
            squote @ ''get'' @ squote))]))"
    by (simp add: internal_error_response_def)
qed

theorem predict_empty_object_witness:
  "model_inputs (snd (predict parse_decimal loaded_state
     (json_request (PyDict [(''shoe_size'', PyInt 44)])))) = [missing_row] \<and>
   (\<exists>label \<in> set (classes two_classes).
      fst (predict parse_decimal loaded_state (json_request (PyDict [(''shoe_size'', PyInt 44)]))) =
        Response 200 (JsonBody (PyDict [(''prediction'', PyStr label)])))"
proof -
  let ?kvs = "[(''shoe_size'', PyInt 44)]"
  let ?req = "json_request (PyDict ?kvs)"
  have loaded: "loaded_model loaded_state = Some (constant_model 1)"
    "loaded_le_personality loaded_state = Some two_classes"
    by (simp_all add: loaded_state_def)
  note inst = predict_empty_object [OF loaded,
      where req = "json_request (PyDict [(''shoe_size'', PyInt 44)])" and parse = parse_decimal]
  have body: "get_json ?req = Inr (PyDict ?kvs)"
    by (simp add: json_request_def)
  have none: "\<forall>f \<in> set expected_feature_order. f \<notin> fst ` set ?kvs"
    by (simp add: expected_feature_order_def)
  have answer: "constant_model 1 missing_row = Inr [1]" "[1::int] \<noteq> []"
    "\<forall>i \<in> set [1::int]. 0 \<le> i \<and> i < int (length (classes two_classes))"
    by (simp_all add: constant_model_def two_classes_def)
  have "model_inputs (snd (predict parse_decimal loaded_state ?req)) = [missing_row]"
    using inst [THEN conjunct1, rule_format, of ?kvs] body none by blast
  moreover have "\<exists>label \<in> set (classes two_classes).
      fst (predict parse_decimal loaded_state ?req) =
        Response 200 (JsonBody (PyDict [(''prediction'', PyStr label)]))"
    using inst [THEN conjunct2, THEN conjunct1, rule_format, of ?kvs "[1]"] body none answer
    by blast
  ultimately show ?thesis by blast
qed

section \<open>Start-up when an artifact cannot be loaded\<close>

text \<open>
  Claim C7 says that when loading either artifact fails, start-up prints a diagnostic,
  leaves the model state unavailable and does not end the process, and that
  \<^verbatim>\<open>GET /\<close> still returns status 200. The start-up part holds for every failure. The
  last part does not hold for every request: after any failed load, a \<^verbatim>\<open>GET /\<close> whose
  \<^verbatim>\<open>Host\<close> header is \<^verbatim>\<open>{#\<close> has the URL root \<^verbatim>\<open>http://{#/\<close>, which \<^verbatim>\<open>home\<close> hands
  to Jinja2 as template source, and the response has status 500.
\<close>

theorem failed_load_host_template:
  assumes "model_file = Inl e \<or> (\<exists>m. model_file = Inr m \<and> encoder_file = Inl e)"
  shows "\<exists>st out. load_artifacts model_file encoder_file = (st, out) \<and>
           model_unavailable st \<and>
           out = (if exn_class_of e = FileNotFoundError then file_not_found_output
                  else unexpected_error_output e) \<and>
           app jinja parse st Root \<lparr>url_root = ''http://{#/'', get_json = b\<rparr> =
             (internal_server_error, []) \<and>
           status_code (fst (app jinja parse st Root \<lparr>url_root = ''http://{#/'', get_json = b\<rparr>)) = 500"
proof -
  obtain st out where "load_artifacts model_file encoder_file = (st, out)"
    and "model_unavailable st"
    and "out = (if exn_class_of e = FileNotFoundError then file_not_found_output
                else unexpected_error_output e)"
    using load_failure_is_not_fatal [OF assms] by blast
  moreover have "app jinja parse st Root \<lparr>url_root = ''http://{#/'', get_json = b\<rparr> =
      (internal_server_error, [])"
    by (rule app_unclosed_comment)
  moreover have "status_code (fst (app jinja parse st Root \<lparr>url_root = ''http://{#/'', get_json = b\<rparr>)) = 500"
    by (simp add: app_unclosed_comment internal_server_error_def)
  ultimately show ?thesis by blast
qed

theorem failed_load_host_template_witness:
  "\<exists>st out. load_artifacts (Inl (Exn FileNotFoundError ''[Errno 2] No such file or directory''))
        (Inr two_classes) = (st, out) \<and>
     model_unavailable st \<and>
     out = file_not_found_output \<and>
     status_code (fst (app no_tags parse_decimal st Root
       \<lparr>url_root = ''http://{#/'', get_json = Inr PyNone\<rparr>)) = 500"
  using failed_load_host_template [of "Inl (Exn FileNotFoundError ''[Errno 2] No such file or directory'')"
      "Exn FileNotFoundError ''[Errno 2] No such file or directory''" "Inr two_classes"
      no_tags parse_decimal "Inr PyNone"]
  by auto

section \<open>The information page\<close>

text \<open>
  Claim C8 says that every \<^verbatim>\<open>GET /\<close> request is answered with status 200 and a
  page that shows the URL root of the request followed by \<^verbatim>\<open>predict\<close>. The view
  pastes the URL root into the text it then hands to Jinja2 as template source, so a
  root with template syntax is interpreted instead of shown. For a request whose
  \<^verbatim>\<open>Host\<close> header is \<^verbatim>\<open>{#\<close>, the URL root is \<^verbatim>\<open>http://{#/\<close>: Jinja2 reads the
  start of a comment that never ends, \<^verbatim>\<open>home\<close> leaves with \<^verbatim>\<open>TemplateSyntaxError\<close>,
  and the response has status 500.
\<close>

theorem home_renders_host_as_template:
  "home jinja \<lparr>url_root = ''http://{#/'', get_json = b\<rparr> =
     Inl (Exn TemplateSyntaxError ''Missing end of comment tag'') \<and>
   status_code (fst (app jinja parse st Root \<lparr>url_root = ''http://{#/'', get_json = b\<rparr>)) = 500"
  by (simp add: home_unclosed_comment app_unclosed_comment internal_server_error_def)

theorem home_renders_host_as_template_witness:
  "home no_tags \<lparr>url_root = ''http://{#/'', get_json = Inr PyNone\<rparr> =
     Inl (Exn TemplateSyntaxError ''Missing end of comment tag'') \<and>
   status_code (fst (app no_tags parse_decimal loaded_state Root
     \<lparr>url_root = ''http://{#/'', get_json = Inr PyNone\<rparr>)) = 500"
  by (rule home_renders_host_as_template)

end
